theory Spec2Isabelle
  imports Main "HOL-Library.Sublist"
begin

section \<open>Documents\<close>

text \<open>
  A plan is a JSON document handled as nested Python values: \<open>None\<close>, booleans,
  integers, strings, lists and dictionaries with string keys.  The code is Python 2.

  A string is the list of its characters, and a character is its code point.  This
  covers a byte string (\<open>str\<close>, code points below 256) as well as a text
  (\<open>unicode\<close>, as \<open>json.loads\<close> makes all strings); the two are equal in Python 2
  when they have the same ASCII characters.  \<open>str ''opId''\<close> is the string of the
  characters written.
\<close>

type_synonym pystring = "nat list"

definition str :: "string \<Rightarrow> pystring" where
  "str s = map of_char s"

text \<open>
  Python 2 has two types of integers.  \<open>JInt i\<close> is the integer \<open>i\<close> as a literal,
  \<open>json.loads\<close> and the arithmetic on values of type \<open>int\<close> make it: it has the type
  \<open>int\<close> when it fits the machine word, \<open>-sys.maxint - 1 \<le> i \<le> sys.maxint\<close>, and
  the type \<open>long\<close> otherwise.  \<open>JLong i\<close> is the integer \<open>i\<close> with the type \<open>long\<close>
  whatever its size, as the arithmetic on a \<open>long\<close> makes it.  \<open>sys.maxint\<close> depends on
  the platform and is a parameter, \<open>maxint\<close>, of the functions that look at the type.
  Floating point numbers do not occur in the documents considered here.

  A dictionary is an association list with pairwise different keys; the order of the
  list is the order in which \<open>items()\<close> enumerates it.
\<close>

datatype json =
    JNone
  | JBool bool
  | JInt int
  | JLong int
  | JStr pystring
  | JList "json list"
  | JDict "(pystring \<times> json) list"

datatype error = KeyError | TypeError | AttributeError

subsection \<open>Python primitives on documents\<close>

text \<open>\<open>v[k]\<close> for a string \<open>k\<close>: only a dictionary can be indexed by a string.\<close>

definition getitem :: "json \<Rightarrow> pystring \<Rightarrow> error + json" where
  "getitem v k =
     (case v of
        JDict kvs \<Rightarrow> (case map_of kvs k of None \<Rightarrow> Inl KeyError | Some x \<Rightarrow> Inr x)
      | _ \<Rightarrow> Inl TypeError)"

text \<open>\<open>v.items()\<close>: a method of dictionaries only.\<close>

definition items :: "json \<Rightarrow> error + (pystring \<times> json) list" where
  "items v = (case v of JDict kvs \<Rightarrow> Inr kvs | _ \<Rightarrow> Inl AttributeError)"

text \<open>\<open>d[k] = v\<close> on a dictionary: an existing key keeps its place.\<close>

fun dict_set :: "(pystring \<times> json) list \<Rightarrow> pystring \<Rightarrow> json \<Rightarrow> (pystring \<times> json) list" where
  "dict_set [] k v = [(k, v)]"
| "dict_set ((k', v') # kvs) k v =
     (if k' = k then (k, v) # kvs else (k', v') # dict_set kvs k v)"

text \<open>\<open>d.update(e)\<close>: every item of \<open>e\<close> is stored into \<open>d\<close>, in turn.\<close>

fun dict_update :: "(pystring \<times> json) list \<Rightarrow> (pystring \<times> json) list \<Rightarrow> (pystring \<times> json) list" where
  "dict_update d [] = d"
| "dict_update d ((k, v) # e) = dict_update (dict_set d k v) e"

text \<open>
  \<open>isinstance(v, int)\<close>: \<open>bool\<close> is a subclass of \<open>int\<close>, \<open>long\<close> is not.
\<close>

definition isinstance_int :: "int \<Rightarrow> json \<Rightarrow> bool" where
  "isinstance_int maxint v =
     (case v of
        JInt i \<Rightarrow> - maxint - 1 \<le> i \<and> i \<le> maxint
      | JBool _ \<Rightarrow> True
      | _ \<Rightarrow> False)"

text \<open>
  \<open>a == b\<close>: numbers compare by value (\<open>True == 1\<close>), everything else by structure.
  Every comparison made by the code below has a number on one side.
\<close>

definition num_of :: "json \<Rightarrow> int option" where
  "num_of v =
     (case v of
        JInt i \<Rightarrow> Some i
      | JLong i \<Rightarrow> Some i
      | JBool b \<Rightarrow> Some (if b then 1 else 0)
      | _ \<Rightarrow> None)"

definition py_eq :: "json \<Rightarrow> json \<Rightarrow> bool" where
  "py_eq a b =
     (case num_of a of
        Some i \<Rightarrow> (case num_of b of Some j \<Rightarrow> i = j | None \<Rightarrow> False)
      | None \<Rightarrow> (case num_of b of Some j \<Rightarrow> False | None \<Rightarrow> a = b))"

text \<open>\<open>x in ys\<close> for a generator \<open>ys\<close>: some value that \<open>ys\<close> yields equals \<open>x\<close>.\<close>

definition py_in :: "json \<Rightarrow> json list \<Rightarrow> bool" where
  "py_in x ys = list_ex (\<lambda>y. py_eq y x) ys"

text \<open>
  \<open>s.upper()\<close> replaces every character by its upper case, one character by one
  character.  The characters whose upper case is a letter \<open>A\<close> to \<open>Z\<close> are the
  letters \<open>a\<close> to \<open>z\<close> (code points 97 to 122, upper case 32 less) and, in a text,
  the dotless i (U+0131, upper case \<open>I\<close>) and the long s (U+017F, upper case \<open>S\<close>).
  \<open>upper_cp\<close> gives the upper case of these.  The upper case of any other character is
  not a letter \<open>A\<close> to \<open>Z\<close> and \<open>upper_cp\<close> leaves the character as it is, which
  makes no difference to a test for a word of such letters in \<open>s.upper()\<close>, the only
  use that the code makes of it.  (On a byte string \<open>upper()\<close> follows the locale, which
  is the C locale unless the program sets another; the code does not.)
\<close>

definition upper_cp :: "nat \<Rightarrow> nat" where
  "upper_cp c =
     (if 97 \<le> c \<and> c \<le> 122 then c - 32
      else if c = 305 then 73
      else if c = 383 then 83
      else c)"

definition upper :: "pystring \<Rightarrow> pystring" where
  "upper s = map upper_cp s"

text \<open>The substring test \<open>p in s\<close>.\<close>

definition str_in :: "pystring \<Rightarrow> pystring \<Rightarrow> bool" where
  "str_in p s = sublist p s"

text \<open>\<open>x or y\<close> where \<open>x\<close> is \<open>None\<close> or a string, or \<open>None\<close> or a dictionary.\<close>

definition or_str :: "pystring option \<Rightarrow> pystring \<Rightarrow> pystring" where
  "or_str x y = (case x of None \<Rightarrow> y | Some s \<Rightarrow> if s = [] then y else s)"

definition or_dict :: "(pystring \<times> json) list option \<Rightarrow> (pystring \<times> json) list \<Rightarrow> (pystring \<times> json) list" where
  "or_dict x y = (case x of None \<Rightarrow> y | Some d \<Rightarrow> if d = [] then y else d)"

section \<open>The structural query layer\<close>

text \<open>
  The views find fragments and operators with path expressions of the library
  \<open>jsonpath_rw\<close>, which is not part of the repository; its matching is modelled here
  as far as the two expressions need it.  They are built from two steps.
  A field step matches the value stored under the field in a dictionary, and nothing
  anywhere else.  The step \<open>[*]\<close> matches every element of a list; a dictionary, a
  number or a string counts as a list of one element; \<open>None\<close> has no length.
  A path applies its steps from left to right to every match of the step before.
\<close>

definition find_field :: "pystring \<Rightarrow> json \<Rightarrow> json list" where
  "find_field k v =
     (case v of
        JDict kvs \<Rightarrow> (case map_of kvs k of None \<Rightarrow> [] | Some x \<Rightarrow> [x])
      | _ \<Rightarrow> [])"

definition find_slice :: "json \<Rightarrow> error + json list" where
  "find_slice v =
     (case v of
        JList xs \<Rightarrow> Inr xs
      | JNone \<Rightarrow> Inl TypeError
      | _ \<Rightarrow> Inr [v])"

fun find_slices :: "json list \<Rightarrow> error + json list" where
  "find_slices [] = Inr []"
| "find_slices (v # vs) =
     (case find_slice v of
        Inl e \<Rightarrow> Inl e
      | Inr xs \<Rightarrow> (case find_slices vs of Inl e \<Rightarrow> Inl e | Inr ys \<Rightarrow> Inr (xs @ ys)))"

section \<open>Views\<close>

subsection \<open>MyriaPlan\<close>

text \<open>\<open>$.plan.fragments.[*]\<close>\<close>

definition MyriaPlan_fragments :: "json \<Rightarrow> error + json list" where
  "MyriaPlan_fragments doc =
     find_slices (concat (map (find_field (str ''fragments'')) (find_field (str ''plan'') doc)))"

text \<open>\<open>$.plan.fragments.[*].operators.[*]\<close>\<close>

definition MyriaPlan_operators :: "json \<Rightarrow> error + json list" where
  "MyriaPlan_operators doc =
     (case MyriaPlan_fragments doc of
        Inl e \<Rightarrow> Inl e
      | Inr fs \<Rightarrow> find_slices (concat (map (find_field (str ''operators'')) fs)))"

subsection \<open>MyriaFragment\<close>

definition MyriaFragment_workers :: "json \<Rightarrow> error + json" where
  "MyriaFragment_workers f = getitem f (str ''overrideWorkers'')"

text \<open>\<open>`this`.operators[*]\<close>\<close>

definition MyriaFragment_operators :: "json \<Rightarrow> error + json list" where
  "MyriaFragment_operators f = find_slices (find_field (str ''operators'') f)"

subsection \<open>MyriaOperator\<close>

text \<open>
  An operator view is the operator's value together with the plan document it was
  found in; the functions below take the plan as an argument where they use it, after
  \<open>maxint\<close> where they look at the type of an integer.
\<close>

definition MyriaOperator_id :: "json \<Rightarrow> error + json" where
  "MyriaOperator_id v = getitem v (str ''opId'')"

definition MyriaOperator_getitem :: "json \<Rightarrow> pystring \<Rightarrow> error + json" where
  "MyriaOperator_getitem v item = getitem v item"

text \<open>
  \<open>self.value.contains(item)\<close>: none of the values of a document has an attribute
  \<open>contains\<close>, so the attribute lookup fails before anything is called.
\<close>

definition MyriaOperator_contains :: "json \<Rightarrow> pystring \<Rightarrow> error + bool" where
  "MyriaOperator_contains v item =
     (case v of
        JDict kvs \<Rightarrow> Inl AttributeError
      | _ \<Rightarrow> Inl AttributeError)"

definition child_key :: "pystring \<Rightarrow> bool" where
  "child_key key = str_in (str ''CHILD'') (upper key)"

definition child_ids :: "int \<Rightarrow> json \<Rightarrow> error + json list" where
  "child_ids maxint v =
     (case items v of
        Inl e \<Rightarrow> Inl e
      | Inr kvs \<Rightarrow> Inr (map snd (filter (\<lambda>(key, value). child_key key \<and> isinstance_int maxint value) kvs)))"

text \<open>
  A generator runs until it is exhausted or an exception leaves it: its outcome is the
  list of the values it yielded and the exception, if any, that ended it.
\<close>

type_synonym 'a gen = "'a list \<times> error option"

fun children_loop :: "int \<Rightarrow> json \<Rightarrow> json list \<Rightarrow> json gen" where
  "children_loop maxint self [] = ([], None)"
| "children_loop maxint self (op # ops) =
     (case MyriaOperator_id op of
        Inl e \<Rightarrow> ([], Some e)
      | Inr i \<Rightarrow>
          (case child_ids maxint self of
             Inl e \<Rightarrow> ([], Some e)
           | Inr ids \<Rightarrow>
               if py_in i ids
               then (case children_loop maxint self ops of (ys, r) \<Rightarrow> (op # ys, r))
               else children_loop maxint self ops))"

definition children :: "int \<Rightarrow> json \<Rightarrow> json \<Rightarrow> json gen" where
  "children maxint plan self =
     (case MyriaPlan_operators plan of
        Inl e \<Rightarrow> ([], Some e)
      | Inr ops \<Rightarrow> children_loop maxint self ops)"

text \<open>
  The inner loop of \<open>parent\<close>: is there a child whose id equals the id of \<open>self\<close>?
  It stops at the first one.
\<close>

fun parent_inner :: "json \<Rightarrow> json list \<Rightarrow> error + bool" where
  "parent_inner self [] = Inr False"
| "parent_inner self (child # cs) =
     (case MyriaOperator_id self of
        Inl e \<Rightarrow> Inl e
      | Inr i \<Rightarrow>
          (case MyriaOperator_id child of
             Inl e \<Rightarrow> Inl e
           | Inr j \<Rightarrow> if py_eq i j then Inr True else parent_inner self cs))"

fun parent_loop :: "int \<Rightarrow> json \<Rightarrow> json \<Rightarrow> json list \<Rightarrow> error + json option" where
  "parent_loop maxint plan self [] = Inr None"
| "parent_loop maxint plan self (op # ops) =
     (case children maxint plan op of
        (cs, r) \<Rightarrow>
          (case parent_inner self cs of
             Inl e \<Rightarrow> Inl e
           | Inr found \<Rightarrow>
               if found then Inr (Some op)
               else (case r of Some e \<Rightarrow> Inl e | None \<Rightarrow> parent_loop maxint plan self ops)))"

definition parent :: "int \<Rightarrow> json \<Rightarrow> json \<Rightarrow> error + json option" where
  "parent maxint plan self =
     (case MyriaPlan_operators plan of
        Inl e \<Rightarrow> Inl e
      | Inr ops \<Rightarrow> parent_loop maxint plan self ops)"

section \<open>The parallel import plan\<close>

definition DEFAULT_SCAN_TYPE :: pystring where
  "DEFAULT_SCAN_TYPE = str ''FileScan''"

definition DEFAULT_INSERT_TYPE :: pystring where
  "DEFAULT_INSERT_TYPE = str ''DbInsert''"

text \<open>
  The counter of operator ids is a list of one integer, \<open>[0]\<close>, that the calls for
  the fragments share and update in place.  The store holds such cells; a cell is named
  by its index, a new cell is put at the end, and an index is only used for a cell that
  exists.
\<close>

type_synonym store = "int list"

definition increment :: "nat \<Rightarrow> store \<Rightarrow> int \<times> store" where
  "increment val s = (let s' = s[val := s ! val + 1] in (s' ! val - 1, s'))"

text \<open>
  \<open>schema\<close> stands for the value of \<open>schema.to_dict()\<close>, \<open>assignment\<close> for the pair
  of a worker id and a data source.  The items of a dictionary display are evaluated in
  the order in which they are written: \<open>argChild\<close> reads the counter after both
  increments.
\<close>

definition get_parallel_import_fragment ::
  "nat \<Rightarrow> json \<Rightarrow> json \<Rightarrow> pystring option \<Rightarrow> pystring option \<Rightarrow>
   (pystring \<times> json) list option \<Rightarrow> (pystring \<times> json) list option \<Rightarrow>
   json \<times> json \<Rightarrow> store \<Rightarrow> json \<times> store" where
  "get_parallel_import_fragment taskid schema relation scan_type insert_type
       scan_parameters insert_parameters assignment s =
     (let worker_id = fst assignment;
          datasource = snd assignment;
          (scan_id, s1) = increment taskid s;
          scan = dict_update
                   [(str ''opId'', JInt scan_id),
                    (str ''opType'', JStr (or_str scan_type DEFAULT_SCAN_TYPE)),
                    (str ''schema'', schema),
                    (str ''source'', datasource)]
                   (or_dict scan_parameters []);
          (insert_id, s2) = increment taskid s1;
          insert = dict_update
                     [(str ''opId'', JInt insert_id),
                      (str ''opType'', JStr (or_str insert_type DEFAULT_INSERT_TYPE)),
                      (str ''argChild'', JInt (s2 ! taskid - 2)),
                      (str ''argOverwriteTable'', JBool True),
                      (str ''relationKey'', relation)]
                     (or_dict insert_parameters [])
      in (JDict [(str ''overrideWorkers'', JList [worker_id]),
                 (str ''operators'', JList [JDict scan, JDict insert])],
          s2))"

text \<open>
  \<open>map(f, work)\<close> where \<open>f\<close> updates the store: the list of the results, computed
  from left to right (the code is Python 2, where \<open>map\<close> returns a list).
\<close>

fun map_store :: "('a \<Rightarrow> store \<Rightarrow> 'b \<times> store) \<Rightarrow> 'a list \<Rightarrow> store \<Rightarrow> 'b list \<times> store" where
  "map_store f [] s = ([], s)"
| "map_store f (x # xs) s =
     (case f x s of (y, s1) \<Rightarrow> (case map_store f xs s1 of (ys, s2) \<Rightarrow> (y # ys, s2)))"

definition get_parallel_import_plan ::
  "json \<Rightarrow> (json \<times> json) list \<Rightarrow> json \<Rightarrow> pystring \<Rightarrow>
   (pystring \<times> json) list option \<Rightarrow> (pystring \<times> json) list option \<Rightarrow>
   pystring option \<Rightarrow> pystring option \<Rightarrow> store \<Rightarrow> json \<times> store" where
  "get_parallel_import_plan schema work relation text_arg
       scan_parameters insert_parameters scan_type insert_type s =
     (let taskid = length s;
          s0 = s @ [0];
          (fragments, s1) =
             map_store (get_parallel_import_fragment taskid schema relation
                          scan_type insert_type scan_parameters insert_parameters) work s0
      in (JDict [(str ''fragments'', JList fragments),
                 (str ''logicalRa'', JStr text_arg),
                 (str ''rawQuery'', JStr text_arg)],
          s1))"

subsection \<open>What the builder computes, in closed form\<close>

text \<open>
  The operators and the fragment that a work entry gives when the counter stands at
  \<open>c\<close>, and the fragments of a work list from there on.  They are used to state and
  prove the properties of the builder, which is related to them by \<open>plan_eq\<close> below.
\<close>

definition scan_operator :: "int \<Rightarrow> json \<Rightarrow> pystring option \<Rightarrow> (pystring \<times> json) list option \<Rightarrow> json \<Rightarrow> (pystring \<times> json) list" where
  "scan_operator c schema scan_type scan_parameters datasource =
     dict_update
       [(str ''opId'', JInt c),
        (str ''opType'', JStr (or_str scan_type DEFAULT_SCAN_TYPE)),
        (str ''schema'', schema),
        (str ''source'', datasource)]
       (or_dict scan_parameters [])"

definition insert_operator :: "int \<Rightarrow> json \<Rightarrow> pystring option \<Rightarrow> (pystring \<times> json) list option \<Rightarrow> (pystring \<times> json) list" where
  "insert_operator c relation insert_type insert_parameters =
     dict_update
       [(str ''opId'', JInt (c + 1)),
        (str ''opType'', JStr (or_str insert_type DEFAULT_INSERT_TYPE)),
        (str ''argChild'', JInt c),
        (str ''argOverwriteTable'', JBool True),
        (str ''relationKey'', relation)]
       (or_dict insert_parameters [])"

definition fragment_at :: "json \<Rightarrow> json \<Rightarrow> pystring option \<Rightarrow> pystring option \<Rightarrow>
   (pystring \<times> json) list option \<Rightarrow> (pystring \<times> json) list option \<Rightarrow> int \<Rightarrow> json \<times> json \<Rightarrow> json" where
  "fragment_at schema relation scan_type insert_type scan_parameters insert_parameters c assignment =
     JDict [(str ''overrideWorkers'', JList [fst assignment]),
            (str ''operators'',
             JList [JDict (scan_operator c schema scan_type scan_parameters (snd assignment)),
                    JDict (insert_operator c relation insert_type insert_parameters)])]"

fun fragments_from :: "json \<Rightarrow> json \<Rightarrow> pystring option \<Rightarrow> pystring option \<Rightarrow>
   (pystring \<times> json) list option \<Rightarrow> (pystring \<times> json) list option \<Rightarrow> int \<Rightarrow> (json \<times> json) list \<Rightarrow> json list" where
  "fragments_from schema relation scan_type insert_type scan_parameters insert_parameters c [] = []"
| "fragments_from schema relation scan_type insert_type scan_parameters insert_parameters c (a # work) =
     fragment_at schema relation scan_type insert_type scan_parameters insert_parameters c a
     # fragments_from schema relation scan_type insert_type scan_parameters insert_parameters (c + 2) work"

text \<open>The operators of the fragments of a work list, in the order of the plan.\<close>

fun operators_from :: "json \<Rightarrow> json \<Rightarrow> pystring option \<Rightarrow> pystring option \<Rightarrow>
   (pystring \<times> json) list option \<Rightarrow> (pystring \<times> json) list option \<Rightarrow> int \<Rightarrow> (json \<times> json) list \<Rightarrow> json list" where
  "operators_from schema relation scan_type insert_type scan_parameters insert_parameters c [] = []"
| "operators_from schema relation scan_type insert_type scan_parameters insert_parameters c (a # work) =
     JDict (scan_operator c schema scan_type scan_parameters (snd a))
     # JDict (insert_operator c relation insert_type insert_parameters)
     # operators_from schema relation scan_type insert_type scan_parameters insert_parameters (c + 2) work"

subsection \<open>Predicates on operators\<close>

text \<open>
  \<open>has_id v\<close>: the operator \<open>v\<close> has a property \<open>opId\<close>.
  \<open>child_of maxint op c\<close>: the id of \<open>c\<close> is one of the child ids of \<open>op\<close>.
  \<open>same_id a b\<close>: \<open>a\<close> and \<open>b\<close> both have an id, and the ids are equal.
\<close>

definition has_id :: "json \<Rightarrow> bool" where
  "has_id v = (case MyriaOperator_id v of Inl e \<Rightarrow> False | Inr i \<Rightarrow> True)"

definition child_of :: "int \<Rightarrow> json \<Rightarrow> json \<Rightarrow> bool" where
  "child_of maxint op c =
     (case child_ids maxint op of
        Inl e \<Rightarrow> False
      | Inr ids \<Rightarrow> (case MyriaOperator_id c of Inl e \<Rightarrow> False | Inr i \<Rightarrow> py_in i ids))"

definition same_id :: "json \<Rightarrow> json \<Rightarrow> bool" where
  "same_id a b =
     (case MyriaOperator_id a of
        Inl e \<Rightarrow> False
      | Inr i \<Rightarrow> (case MyriaOperator_id b of Inl e \<Rightarrow> False | Inr j \<Rightarrow> py_eq i j))"

section \<open>Dictionaries\<close>

lemma str_eq_iff [simp]: "str a = str b \<longleftrightarrow> a = b"
  by (simp add: str_def inj_map_eq_map inj_of_char)

lemma str_Nil [simp]: "str [] = []"
  by (simp add: str_def)

lemma map_of_dict_set: "map_of (dict_set d k v) = (map_of d)(k \<mapsto> v)"
  by (induction d k v rule: dict_set.induct) (auto simp: fun_eq_iff)

lemma fst_set_dict_set: "fst ` set (dict_set d k v) = insert k (fst ` set d)"
  by (induction d k v rule: dict_set.induct) auto

lemma distinct_dict_set: "distinct (map fst d) \<Longrightarrow> distinct (map fst (dict_set d k v))"
  by (induction d k v rule: dict_set.induct) (auto simp: fst_set_dict_set)

lemma map_of_dict_update_other:
  "k \<notin> fst ` set e \<Longrightarrow> map_of (dict_update d e) k = map_of d k"
  by (induction d e rule: dict_update.induct) (auto simp: map_of_dict_set)

lemma map_of_dict_update_supplied:
  "distinct (map fst e) \<Longrightarrow> (k, v) \<in> set e \<Longrightarrow> map_of (dict_update d e) k = Some v"
proof (induction d e rule: dict_update.induct)
  case (1 d)
  then show ?case by simp
next
  case (2 d k' v' e)
  show ?case
  proof (cases "(k, v) \<in> set e")
    case True
    with 2 show ?thesis by simp
  next
    case False
    with "2.prems" have eq: "k' = k" "v' = v" and notin: "k \<notin> fst ` set e"
      by auto
    show ?thesis
      by (simp add: eq map_of_dict_update_other [OF notin] map_of_dict_set)
  qed
qed

lemma map_of_dict_update:
  assumes "distinct (map fst e)"
  shows "map_of (dict_update d e) k = (case map_of e k of Some v \<Rightarrow> Some v | None \<Rightarrow> map_of d k)"
proof (cases "map_of e k")
  case None
  then have "k \<notin> fst ` set e"
    by (simp add: map_of_eq_None_iff)
  with None show ?thesis
    by (simp add: map_of_dict_update_other)
next
  case (Some v)
  then have "(k, v) \<in> set e"
    by (rule map_of_SomeD)
  with assms Some show ?thesis
    by (simp add: map_of_dict_update_supplied)
qed

lemma distinct_dict_update: "distinct (map fst d) \<Longrightarrow> distinct (map fst (dict_update d e))"
  by (induction d e rule: dict_update.induct) (auto simp: distinct_dict_set)

lemma fst_set_dict_update: "fst ` set (dict_update d e) = fst ` set d \<union> fst ` set e"
  by (induction d e rule: dict_update.induct) (auto simp: fst_set_dict_set)

lemma getitem_JDict: "getitem (JDict kvs) k = (case map_of kvs k of None \<Rightarrow> Inl KeyError | Some x \<Rightarrow> Inr x)"
  by (simp add: getitem_def)

lemma filter_dict_set:
  "\<not> child_key k \<Longrightarrow>
   filter (\<lambda>(key, value). child_key key \<and> isinstance_int maxint value) (dict_set d k v) =
   filter (\<lambda>(key, value). child_key key \<and> isinstance_int maxint value) d"
  by (induction d k v rule: dict_set.induct) auto

lemma filter_dict_update:
  "\<not> list_ex child_key (map fst e) \<Longrightarrow>
   filter (\<lambda>(key, value). child_key key \<and> isinstance_int maxint value) (dict_update d e) =
   filter (\<lambda>(key, value). child_key key \<and> isinstance_int maxint value) d"
  by (induction d e rule: dict_update.induct) (auto simp: filter_dict_set)

lemma list_ex_filter: "list_ex P (filter Q xs) \<longleftrightarrow> (\<exists>x\<in>set xs. Q x \<and> P x)"
  by (auto simp: list_ex_iff)

lemma map_nth_upt: "map (\<lambda>k. f (xs ! k)) [0..<length xs] = map f xs"
proof -
  have "map f xs = map f (map ((!) xs) [0..<length xs])"
    by (simp only: map_nth)
  then show ?thesis
    by (simp add: o_def)
qed

section \<open>Keys and values\<close>

lemma sublist_map_iff:
  "sublist xs (map f ys) \<longleftrightarrow> (\<exists>pre mid post. ys = pre @ mid @ post \<and> map f mid = xs)"
proof
  assume "sublist xs (map f ys)"
  then obtain ps ss where "map f ys = ps @ xs @ ss"
    by (auto simp: sublist_def)
  then obtain pre rest where k1: "ys = pre @ rest" and k2: "xs @ ss = map f rest"
    unfolding map_eq_append_conv by blast
  from k2 obtain mid post where "rest = mid @ post" and "map f mid = xs"
    unfolding append_eq_map_conv by blast
  with k1 show "\<exists>pre mid post. ys = pre @ mid @ post \<and> map f mid = xs"
    by auto
next
  assume "\<exists>pre mid post. ys = pre @ mid @ post \<and> map f mid = xs"
  then obtain pre mid post where "ys = pre @ mid @ post" and "map f mid = xs"
    by blast
  then have "map f ys = map f pre @ xs @ map f post"
    by simp
  then show "sublist xs (map f ys)"
    unfolding sublist_def by blast
qed

lemma child_key_iff:
  "child_key key \<longleftrightarrow> (\<exists>pre mid post. key = pre @ mid @ post \<and> upper mid = (str ''CHILD''))"
  unfolding child_key_def str_in_def upper_def by (rule sublist_map_iff)

lemma isinstance_int_iff:
  "isinstance_int maxint v \<longleftrightarrow>
     (\<exists>i. v = JInt i \<and> - maxint - 1 \<le> i \<and> i \<le> maxint) \<or> (\<exists>b. v = JBool b)"
  by (cases v) (simp_all add: isinstance_int_def)

lemma upper_cp_letter:
  "upper_cp c = 67 \<longleftrightarrow> c = 67 \<or> c = 99"
  "upper_cp c = 72 \<longleftrightarrow> c = 72 \<or> c = 104"
  "upper_cp c = 73 \<longleftrightarrow> c = 73 \<or> c = 105 \<or> c = 305"
  "upper_cp c = 76 \<longleftrightarrow> c = 76 \<or> c = 108"
  "upper_cp c = 68 \<longleftrightarrow> c = 68 \<or> c = 100"
  unfolding upper_cp_def by presburger+

lemma upper_eq_CHILD:
  "upper mid = str ''CHILD'' \<longleftrightarrow>
     (\<exists>c h i l d. mid = [c, h, i, l, d]
        \<and> (c = of_char CHR ''C'' \<or> c = of_char CHR ''c'')
        \<and> (h = of_char CHR ''H'' \<or> h = of_char CHR ''h'')
        \<and> (i = of_char CHR ''I'' \<or> i = of_char CHR ''i'' \<or> i = 305)
        \<and> (l = of_char CHR ''L'' \<or> l = of_char CHR ''l'')
        \<and> (d = of_char CHR ''D'' \<or> d = of_char CHR ''d''))"
  by (simp add: upper_def str_def map_eq_Cons_conv upper_cp_letter) blast

lemma child_ids_JDict:
  "child_ids maxint (JDict kvs) =
   Inr (map snd (filter (\<lambda>(key, value). child_key key \<and> isinstance_int maxint value) kvs))"
  by (simp add: child_ids_def items_def)

lemma not_child_key_builder [simp]:
  "\<not> child_key (str ''opId'')" "\<not> child_key (str ''opType'')" "\<not> child_key (str ''schema'')"
  "\<not> child_key (str ''source'')" "\<not> child_key (str ''argOverwriteTable'')" "\<not> child_key (str ''relationKey'')"
  "child_key (str ''argChild'')"
  by (simp_all add: child_key_def str_in_def upper_def upper_cp_def str_def sublist_Cons_right)

lemma py_eq_JInt [simp]: "py_eq (JInt a) (JInt b) \<longleftrightarrow> a = b"
  by (simp add: py_eq_def num_of_def)

lemma py_eq_sym: "py_eq a b \<longleftrightarrow> py_eq b a"
  by (auto simp: py_eq_def split: option.splits)

section \<open>The views on a plan whose operators have ids\<close>

text \<open>
  When every operator of the plan has an id and the operator in question has one, no
  exception is raised: \<open>children\<close> is a filter and \<open>parent\<close> a search over the operators of the plan.
\<close>

lemma has_id_child_ids: "has_id v \<Longrightarrow> \<exists>ids. child_ids maxint v = Inr ids"
  by (cases v) (auto simp: has_id_def MyriaOperator_id_def getitem_def child_ids_def items_def)

lemma children_loop_wf:
  assumes "list_all has_id ops" and "has_id self \<or> ops = []"
  shows "children_loop maxint self ops = (filter (child_of maxint self) ops, None)"
  using assms
proof (induction ops)
  case Nil
  then show ?case by simp
next
  case (Cons x ops)
  from Cons.prems obtain i where i: "MyriaOperator_id x = Inr i"
    by (auto simp: has_id_def split: sum.splits)
  from Cons.prems have "has_id self" by simp
  then obtain ids where ids: "child_ids maxint self = Inr ids"
    using has_id_child_ids by blast
  have rest: "children_loop maxint self ops = (filter (child_of maxint self) ops, None)"
    using Cons.prems \<open>has_id self\<close> by (intro Cons.IH) auto
  have cx: "child_of maxint self x = py_in i ids"
    by (simp add: child_of_def i ids)
  show ?case
    by (simp add: i ids rest cx)
qed

lemma parent_inner_wf:
  assumes "list_all has_id cs" and "has_id self"
  shows "parent_inner self cs = Inr (list_ex (same_id self) cs)"
  using assms
proof (induction cs)
  case Nil
  then show ?case by simp
next
  case (Cons c cs)
  from Cons.prems obtain i j where "MyriaOperator_id self = Inr i" "MyriaOperator_id c = Inr j"
    by (auto simp: has_id_def split: sum.splits)
  with Cons show ?case
    by (simp add: same_id_def)
qed

lemma children_wf:
  assumes "MyriaPlan_operators plan = Inr ops" and "list_all has_id ops" and "has_id op \<or> ops = []"
  shows "children maxint plan op = (filter (child_of maxint op) ops, None)"
  using assms by (simp add: children_def children_loop_wf)

lemma parent_loop_wf:
  assumes "MyriaPlan_operators plan = Inr ops" and "list_all has_id ops" and "has_id self"
    and "list_all has_id xs"
  shows "parent_loop maxint plan self xs =
         Inr (find (\<lambda>op. list_ex (same_id self) (fst (children maxint plan op))) xs)"
  using assms(4)
proof (induction xs)
  case Nil
  then show ?case by simp
next
  case (Cons x xs)
  from Cons.prems have x: "has_id x" and xs: "list_all has_id xs"
    by simp_all
  have ch: "children maxint plan x = (filter (child_of maxint x) ops, None)"
    using assms(1,2) x by (simp add: children_wf)
  have "list_all has_id (filter (child_of maxint x) ops)"
    using assms(2) by (simp add: list_all_iff)
  then have inner: "parent_inner self (filter (child_of maxint x) ops) =
      Inr (list_ex (same_id self) (filter (child_of maxint x) ops))"
    using assms(3) by (rule parent_inner_wf)
  show ?case
    by (simp add: ch inner Cons.IH [OF xs])
qed

lemma parent_wf:
  assumes "MyriaPlan_operators plan = Inr ops" and "list_all has_id ops" and "has_id self"
  shows "parent maxint plan self =
         Inr (find (\<lambda>op. list_ex (same_id self) (fst (children maxint plan op))) ops)"
  using assms by (simp add: parent_def parent_loop_wf)

lemma has_id_JDict: "has_id (JDict kvs) \<longleftrightarrow> (str ''opId'') \<in> fst ` set kvs"
proof -
  have "has_id (JDict kvs) \<longleftrightarrow> map_of kvs (str ''opId'') \<noteq> None"
    by (simp add: has_id_def MyriaOperator_id_def getitem_def split: option.splits)
  then show ?thesis
    by (simp add: map_of_eq_None_iff)
qed

lemma child_of_no_children: "child_ids maxint op = Inr [] \<Longrightarrow> child_of maxint op c = False"
  by (simp add: child_of_def py_in_def split: sum.splits)

lemma find_slice_JList: "find_slice (JList xs) = Inr xs"
  by (simp add: find_slice_def)

section \<open>The builder in closed form\<close>

subsection \<open>The counter\<close>

lemma increment_eq: "val < length s \<Longrightarrow> increment val s = (s ! val, s[val := s ! val + 1])"
  by (simp add: increment_def Let_def)

lemma fragment_eq:
  "taskid < length s \<Longrightarrow>
   get_parallel_import_fragment taskid schema relation scan_type insert_type
       scan_parameters insert_parameters assignment s =
   (fragment_at schema relation scan_type insert_type scan_parameters insert_parameters (s ! taskid) assignment,
    s[taskid := s ! taskid + 2])"
  by (simp add: get_parallel_import_fragment_def increment_eq fragment_at_def scan_operator_def
      insert_operator_def Let_def add.commute)

lemma map_store_fragments:
  "taskid < length s \<Longrightarrow>
   map_store (get_parallel_import_fragment taskid schema relation scan_type insert_type
       scan_parameters insert_parameters) work s =
   (fragments_from schema relation scan_type insert_type scan_parameters insert_parameters (s ! taskid) work,
    s[taskid := s ! taskid + 2 * int (length work)])"
proof (induction work arbitrary: s)
  case Nil
  then show ?case by simp
next
  case (Cons a work)
  have len: "taskid < length (s[taskid := s ! taskid + 2])" using Cons.prems by simp
  show ?case
    using Cons.prems by (simp add: fragment_eq Cons.IH [OF len] algebra_simps)
qed

lemma plan_eq:
  "get_parallel_import_plan schema work relation text_arg scan_parameters insert_parameters
       scan_type insert_type s =
   (JDict [(str ''fragments'', JList (fragments_from schema relation scan_type insert_type
                                     scan_parameters insert_parameters 0 work)),
           (str ''logicalRa'', JStr text_arg),
           (str ''rawQuery'', JStr text_arg)],
    s @ [2 * int (length work)])"
  by (simp add: get_parallel_import_plan_def Let_def map_store_fragments nth_append)

subsection \<open>Fragments and operators\<close>

lemma fragments_from_map:
  "fragments_from schema relation st it sp ip c work =
   map (\<lambda>k. fragment_at schema relation st it sp ip (c + 2 * int k) (work ! k)) [0..<length work]"
proof (induction work arbitrary: c)
  case Nil
  then show ?case by simp
next
  case (Cons a work)
  show ?case
    by (simp add: Cons.IH map_upt_Suc algebra_simps del: upt_Suc)
qed

lemma getitem_fragment_at_workers:
  "getitem (fragment_at schema relation st it sp ip c a) (str ''overrideWorkers'') = Inr (JList [fst a])"
  by (simp add: fragment_at_def getitem_def)

lemma getitem_fragment_at_operators:
  "getitem (fragment_at schema relation st it sp ip c a) (str ''operators'') =
   Inr (JList [JDict (scan_operator c schema st sp (snd a)), JDict (insert_operator c relation it ip)])"
  by (simp add: fragment_at_def getitem_def)

lemma scan_operator_opId:
  "str ''opId'' \<notin> fst ` set (or_dict sp []) \<Longrightarrow>
   map_of (scan_operator c schema st sp src) (str ''opId'') = Some (JInt c)"
  by (simp add: scan_operator_def map_of_dict_update_other)

lemma insert_operator_opId:
  "str ''opId'' \<notin> fst ` set (or_dict ip []) \<Longrightarrow>
   map_of (insert_operator c relation it ip) (str ''opId'') = Some (JInt (c + 1))"
  by (simp add: insert_operator_def map_of_dict_update_other)

lemma insert_operator_argChild:
  "str ''argChild'' \<notin> fst ` set (or_dict ip []) \<Longrightarrow>
   map_of (insert_operator c relation it ip) (str ''argChild'') = Some (JInt c)"
  by (simp add: insert_operator_def map_of_dict_update_other)

lemma length_fragments_from [simp]:
  "length (fragments_from schema relation st it sp ip c work) = length work"
  by (simp add: fragments_from_map)

lemma length_operators_from [simp]:
  "length (operators_from schema relation st it sp ip c work) = 2 * length work"
  by (induction work arbitrary: c) auto

lemma operators_from_nth:
  "k < length work \<Longrightarrow>
   operators_from schema relation st it sp ip c work ! (2 * k) =
     JDict (scan_operator (c + 2 * int k) schema st sp (snd (work ! k))) \<and>
   operators_from schema relation st it sp ip c work ! Suc (2 * k) =
     JDict (insert_operator (c + 2 * int k) relation it ip)"
proof (induction work arbitrary: c k)
  case Nil
  then show ?case by simp
next
  case (Cons a work)
  show ?case
  proof (cases k)
    case 0
    then show ?thesis by simp
  next
    case (Suc j)
    with Cons.prems have "j < length work" by simp
    from Cons.IH [OF this, of "c + 2"] show ?thesis
      by (simp add: Suc algebra_simps)
  qed
qed

lemma operators_from_ids:
  assumes "str ''opId'' \<notin> fst ` set (or_dict sp [])" and "str ''opId'' \<notin> fst ` set (or_dict ip [])"
  shows "map MyriaOperator_id (operators_from schema relation st it sp ip c work) =
         map (\<lambda>i. Inr (JInt (c + int i))) [0..<2 * length work]"
proof (induction work arbitrary: c)
  case Nil
  then show ?case by simp
next
  case (Cons a work)
  have upt: "[0..<2 * length (a # work)] = [0..<Suc (Suc (2 * length work))]"
    by simp
  have scan: "MyriaOperator_id (JDict (scan_operator c schema st sp (snd a))) = Inr (JInt c)"
    using assms(1) by (simp add: MyriaOperator_id_def getitem_JDict scan_operator_opId)
  have ins: "MyriaOperator_id (JDict (insert_operator c relation it ip)) = Inr (JInt (c + 1))"
    using assms(2) by (simp add: MyriaOperator_id_def getitem_JDict insert_operator_opId)
  have rest: "map MyriaOperator_id (operators_from schema relation st it sp ip (c + 2) work) =
      map (\<lambda>i. Inr (JInt (c + int (Suc (Suc i))))) [0..<2 * length work]"
    by (simp add: Cons.IH add.assoc)
  show ?case
    unfolding upt map_upt_Suc
    by (simp add: scan ins rest del: upt_Suc)
qed

lemma plan_fragments:
  "getitem (fst (get_parallel_import_plan schema work relation text_arg sp ip st it s)) (str ''fragments'')
     = Inr (JList (fragments_from schema relation st it sp ip 0 work))"
  by (simp add: plan_eq getitem_def)

lemma fragments_operators_field:
  "map (\<lambda>f. getitem f (str ''operators'')) (fragments_from schema relation st it sp ip c work) =
   map (\<lambda>k. Inr (JList [operators_from schema relation st it sp ip c work ! (2 * k),
                           operators_from schema relation st it sp ip c work ! (2 * k + 1)]))
       [0..<length work]"
  by (simp add: fragments_from_map getitem_fragment_at_operators operators_from_nth)

lemma fragments_from_nth:
  "k < length work \<Longrightarrow>
   fragments_from schema relation st it sp ip c work ! k =
   fragment_at schema relation st it sp ip (c + 2 * int k) (work ! k)"
  by (simp add: fragments_from_map)

lemma set_fragments_from:
  "f \<in> set (fragments_from schema relation st it sp ip c work) \<Longrightarrow>
   \<exists>k<length work. f = fragment_at schema relation st it sp ip (c + 2 * int k) (work ! k)"
  by (auto simp: fragments_from_map)

subsection \<open>Properties supplied by the caller\<close>

lemma scan_operator_supplied:
  "distinct (map fst (or_dict sp [])) \<Longrightarrow> (k, v) \<in> set (or_dict sp []) \<Longrightarrow>
   getitem (JDict (scan_operator c schema st sp src)) k = Inr v"
  by (simp add: scan_operator_def getitem_JDict map_of_dict_update_supplied)

lemma insert_operator_supplied:
  "distinct (map fst (or_dict ip [])) \<Longrightarrow> (k, v) \<in> set (or_dict ip []) \<Longrightarrow>
   getitem (JDict (insert_operator c relation it ip)) k = Inr v"
  by (simp add: insert_operator_def getitem_JDict map_of_dict_update_supplied)

lemma supplied_parameters:
  assumes "distinct (map fst (or_dict sp []))" and "distinct (map fst (or_dict ip []))"
  shows "\<exists>frags.
     getitem (fst (get_parallel_import_plan schema work relation text_arg sp ip st it s)) (str ''fragments'')
       = Inr (JList frags)
     \<and> length frags = length work
     \<and> (\<forall>f\<in>set frags. \<exists>scan ins.
           getitem f (str ''operators'') = Inr (JList [scan, ins])
           \<and> (\<forall>(k, v)\<in>set (or_dict sp []). getitem scan k = Inr v)
           \<and> (\<forall>(k, v)\<in>set (or_dict ip []). getitem ins k = Inr v))"
proof -
  let ?frags = "fragments_from schema relation st it sp ip 0 work"
  have "\<exists>scan ins.
           getitem f (str ''operators'') = Inr (JList [scan, ins])
           \<and> (\<forall>(k, v)\<in>set (or_dict sp []). getitem scan k = Inr v)
           \<and> (\<forall>(k, v)\<in>set (or_dict ip []). getitem ins k = Inr v)" if "f \<in> set ?frags" for f
  proof -
    from set_fragments_from [OF that] obtain j where
      f: "f = fragment_at schema relation st it sp ip (0 + 2 * int j) (work ! j)"
      by blast
    let ?scan = "JDict (scan_operator (0 + 2 * int j) schema st sp (snd (work ! j)))"
    let ?ins = "JDict (insert_operator (0 + 2 * int j) relation it ip)"
    have 1: "getitem f (str ''operators'') = Inr (JList [?scan, ?ins])"
      unfolding f by (rule getitem_fragment_at_operators)
    have 2: "\<forall>(k, v)\<in>set (or_dict sp []). getitem ?scan k = Inr v"
      using scan_operator_supplied [OF assms(1)] by blast
    have 3: "\<forall>(k, v)\<in>set (or_dict ip []). getitem ?ins k = Inr v"
      using insert_operator_supplied [OF assms(2)] by blast
    from 1 2 3 show ?thesis by blast
  qed
  then show ?thesis
    using plan_fragments [of schema work relation text_arg sp ip st it s]
    by (intro exI [of _ ?frags]) simp
qed

subsection \<open>The views of the built document\<close>

lemma find_field_fragment_at:
  "find_field (str ''operators'') (fragment_at schema relation st it sp ip c a) =
   [JList [JDict (scan_operator c schema st sp (snd a)), JDict (insert_operator c relation it ip)]]"
  by (simp add: find_field_def fragment_at_def)

lemma find_slices_fragments_from:
  "find_slices (concat (map (find_field (str ''operators'')) (fragments_from schema relation st it sp ip c work))) =
   Inr (operators_from schema relation st it sp ip c work)"
  by (induction work arbitrary: c) (simp_all add: find_field_fragment_at find_slice_def)

lemma view_fragments_under_plan:
  "MyriaPlan_fragments
     (JDict [(str ''plan'', fst (get_parallel_import_plan schema work relation text_arg sp ip st it s))]) =
   Inr (fragments_from schema relation st it sp ip 0 work)"
  by (simp add: MyriaPlan_fragments_def find_field_def plan_eq find_slice_JList)

lemma view_operators_under_plan:
  "MyriaPlan_operators
     (JDict [(str ''plan'', fst (get_parallel_import_plan schema work relation text_arg sp ip st it s))]) =
   Inr (operators_from schema relation st it sp ip 0 work)"
  by (simp add: MyriaPlan_operators_def view_fragments_under_plan find_slices_fragments_from)

lemma view_fragments_unwrapped:
  "MyriaPlan_fragments (fst (get_parallel_import_plan schema work relation text_arg sp ip st it s)) = Inr []"
  by (simp add: MyriaPlan_fragments_def find_field_def plan_eq)

lemma view_operators_unwrapped:
  "MyriaPlan_operators (fst (get_parallel_import_plan schema work relation text_arg sp ip st it s)) = Inr []"
  by (simp add: MyriaPlan_operators_def view_fragments_unwrapped)

lemma fragment_view_operators:
  "map MyriaFragment_operators (fragments_from schema relation st it sp ip c work) =
   map (\<lambda>k. Inr [operators_from schema relation st it sp ip c work ! (2 * k),
                   operators_from schema relation st it sp ip c work ! (2 * k + 1)])
       [0..<length work]"
  by (simp add: fragments_from_map MyriaFragment_operators_def find_field_fragment_at
      find_slice_JList operators_from_nth)

lemma fragment_view_workers:
  "map MyriaFragment_workers (fragments_from schema relation st it sp ip c work) =
   map (\<lambda>a. Inr (JList [fst a])) work"
  using map_nth_upt [of "\<lambda>a. Inr (JList [fst a])" work]
  by (simp add: fragments_from_map MyriaFragment_workers_def getitem_fragment_at_workers o_def)

lemma child_ids_scan_no_parameters:
  "child_ids maxint (JDict (scan_operator c schema st None src)) = Inr []"
  by (simp add: child_ids_JDict scan_operator_def or_dict_def)

lemma has_id_scan_operator: "has_id (JDict (scan_operator c schema st sp src))"
  by (simp add: has_id_JDict scan_operator_def fst_set_dict_update)

lemma has_id_insert_operator: "has_id (JDict (insert_operator c relation it ip))"
  by (simp add: has_id_JDict insert_operator_def fst_set_dict_update)

lemma has_id_operators_from: "list_all has_id (operators_from schema relation st it sp ip c work)"
  by (induction work arbitrary: c) (simp_all add: has_id_scan_operator has_id_insert_operator)

lemma getitem_scan_source:
  "getitem (JDict (scan_operator c schema st None src)) (str ''source'') = Inr src"
  by (simp add: getitem_JDict scan_operator_def or_dict_def)

lemma child_ids_scan:
  "\<not> list_ex child_key (map fst (or_dict sp [])) \<Longrightarrow>
   child_ids maxint (JDict (scan_operator c schema st sp src)) = Inr []"
  by (simp add: child_ids_JDict scan_operator_def filter_dict_update)

lemma child_ids_insert:
  assumes "\<not> list_ex child_key (map fst (or_dict ip []))"
  shows "child_ids maxint (JDict (insert_operator c relation it ip)) =
         Inr (if - maxint - 1 \<le> c \<and> c \<le> maxint then [JInt c] else [])"
proof -
  have int: "isinstance_int maxint (JInt c) \<longleftrightarrow> - maxint - 1 \<le> c \<and> c \<le> maxint"
    "\<not> isinstance_int maxint (JStr t)" for t
    by (simp_all add: isinstance_int_def)
  show ?thesis
    by (simp add: child_ids_JDict insert_operator_def filter_dict_update [OF assms] int)
qed

lemma find_operators_from:
  assumes "\<And>c' src. \<not> P (JDict (scan_operator c' schema st sp src))"
    and "\<And>c'. P (JDict (insert_operator c' relation it ip)) \<longleftrightarrow> c' = m"
  shows "find P (operators_from schema relation st it sp ip c work) =
         (if \<exists>j<length work. c + 2 * int j = m
          then Some (JDict (insert_operator m relation it ip)) else None)"
proof (induction work arbitrary: c)
  case Nil
  then show ?case by simp
next
  case (Cons a work)
  have ex: "(\<exists>j<length (a # work). c + 2 * int j = m) \<longleftrightarrow>
            c = m \<or> (\<exists>j<length work. c + 2 + 2 * int j = m)"
  proof
    assume "\<exists>j<length (a # work). c + 2 * int j = m"
    then obtain j where j: "j < length (a # work)" "c + 2 * int j = m"
      by blast
    show "c = m \<or> (\<exists>j<length work. c + 2 + 2 * int j = m)"
    proof (cases j)
      case 0
      with j show ?thesis by simp
    next
      case (Suc i)
      with j have "i < length work" "c + 2 + 2 * int i = m"
        by simp_all
      then show ?thesis by blast
    qed
  next
    assume "c = m \<or> (\<exists>j<length work. c + 2 + 2 * int j = m)"
    then show "\<exists>j<length (a # work). c + 2 * int j = m"
    proof
      assume "c = m"
      then have "0 < length (a # work) \<and> c + 2 * int 0 = m" by simp
      then show ?thesis by blast
    next
      assume "\<exists>j<length work. c + 2 + 2 * int j = m"
      then obtain j where "j < length work" "c + 2 + 2 * int j = m" by blast
      then have "Suc j < length (a # work) \<and> c + 2 * int (Suc j) = m" by simp
      then show ?thesis by blast
    qed
  qed
  show ?case
    unfolding ex by (auto simp: assms Cons.IH)
qed

lemma operators_from_some_id:
  assumes "str ''opId'' \<notin> fst ` set (or_dict sp [])" and "str ''opId'' \<notin> fst ` set (or_dict ip [])"
  shows "(\<exists>x\<in>set (operators_from schema relation st it sp ip 0 work).
            \<exists>i. MyriaOperator_id x = Inr i \<and> py_eq (JInt c') i \<and> py_eq (JInt m) i)
         \<longleftrightarrow> c' = m \<and> 0 \<le> m \<and> m < 2 * int (length work)"
proof -
  let ?ops = "operators_from schema relation st it sp ip 0 work"
  have "map MyriaOperator_id ?ops = map (\<lambda>i. Inr (JInt (int i))) [0..<2 * length work]"
    using operators_from_ids [OF assms, of schema relation st it 0 work] by simp
  then have "set (map MyriaOperator_id ?ops) = set (map (\<lambda>i. Inr (JInt (int i))) [0..<2 * length work])"
    by simp
  then have ids: "MyriaOperator_id ` set ?ops = (\<lambda>i. Inr (JInt (int i))) ` {0..<2 * length work}"
    by simp
  show ?thesis
  proof
    assume "\<exists>x\<in>set ?ops. \<exists>i. MyriaOperator_id x = Inr i \<and> py_eq (JInt c') i \<and> py_eq (JInt m) i"
    then obtain x i where x: "x \<in> set ?ops" "MyriaOperator_id x = Inr i"
      "py_eq (JInt c') i" "py_eq (JInt m) i"
      by blast
    from x(1) have "MyriaOperator_id x \<in> MyriaOperator_id ` set ?ops"
      by (rule imageI)
    with ids x(2) obtain n where "n < 2 * length work" "i = JInt (int n)"
      by auto
    with x(3,4) show "c' = m \<and> 0 \<le> m \<and> m < 2 * int (length work)"
      by auto
  next
    assume a: "c' = m \<and> 0 \<le> m \<and> m < 2 * int (length work)"
    then have "nat m \<in> {0..<2 * length work}"
      by auto
    then have "Inr (JInt (int (nat m))) \<in> MyriaOperator_id ` set ?ops"
      unfolding ids by (rule imageI)
    then obtain x where "x \<in> set ?ops" "MyriaOperator_id x = Inr (JInt m)"
      using a by auto
    then have "x \<in> set ?ops \<and>
        (MyriaOperator_id x = Inr (JInt m) \<and> py_eq (JInt c') (JInt m) \<and> py_eq (JInt m) (JInt m))"
      using a by simp
    then show "\<exists>x\<in>set ?ops. \<exists>i. MyriaOperator_id x = Inr i \<and> py_eq (JInt c') i \<and> py_eq (JInt m) i"
      by blast
  qed
qed

lemma parent_under_plan:
  assumes h1: "str ''opId'' \<notin> fst ` set (or_dict sp [])"
    and h2: "\<not> list_ex child_key (map fst (or_dict sp []))"
    and h3: "str ''opId'' \<notin> fst ` set (or_dict ip [])"
    and h4: "\<not> list_ex child_key (map fst (or_dict ip []))"
    and self: "MyriaOperator_id self = Inr (JInt m)"
    and m: "0 \<le> m" "m < 2 * int (length work)" "m \<le> maxint"
  shows "parent maxint (JDict [(str ''plan'', fst (get_parallel_import_plan schema work relation text_arg sp ip st it s))])
           self =
         Inr (if \<exists>j<length work. 2 * int j = m
              then Some (JDict (insert_operator m relation it ip)) else None)"
proof -
  let ?plan = "JDict [(str ''plan'', fst (get_parallel_import_plan schema work relation text_arg sp ip st it s))]"
  let ?ops = "operators_from schema relation st it sp ip 0 work"
  let ?P = "\<lambda>op. list_ex (same_id self) (fst (children maxint ?plan op))"
  have ops: "MyriaPlan_operators ?plan = Inr ?ops"
    by (rule view_operators_under_plan)
  have wf: "list_all has_id ?ops"
    by (rule has_id_operators_from)
  have hs: "has_id self"
    by (simp add: has_id_def self)
  have scan: "\<not> ?P (JDict (scan_operator c' schema st sp src))" for c' src
    using children_wf [OF ops wf, of "JDict (scan_operator c' schema st sp src)"]
    by (simp add: has_id_scan_operator child_of_no_children [OF child_ids_scan [OF h2]])
  have ins: "?P (JDict (insert_operator c' relation it ip)) \<longleftrightarrow> c' = m" for c'
  proof -
    let ?ins = "JDict (insert_operator c' relation it ip)"
    have ch: "children maxint ?plan ?ins = (filter (child_of maxint ?ins) ?ops, None)"
      using children_wf [OF ops wf, of ?ins] by (simp add: has_id_insert_operator)
    let ?fits = "- maxint - 1 \<le> c' \<and> c' \<le> maxint"
    have co: "child_of maxint ?ins x \<and> same_id self x \<longleftrightarrow>
              ?fits \<and> (\<exists>i. MyriaOperator_id x = Inr i \<and> py_eq (JInt c') i \<and> py_eq (JInt m) i)" for x
      by (cases "MyriaOperator_id x")
        (auto simp: child_of_def same_id_def child_ids_insert [OF h4] self py_in_def)
    have "?P ?ins \<longleftrightarrow> (\<exists>x\<in>set ?ops. child_of maxint ?ins x \<and> same_id self x)"
      by (simp add: ch list_ex_filter)
    also have "\<dots> \<longleftrightarrow>
        ?fits \<and> (\<exists>x\<in>set ?ops. \<exists>i. MyriaOperator_id x = Inr i \<and> py_eq (JInt c') i \<and> py_eq (JInt m) i)"
      by (simp only: co) blast
    also have "\<dots> \<longleftrightarrow> ?fits \<and> (c' = m \<and> 0 \<le> m \<and> m < 2 * int (length work))"
      by (simp only: operators_from_some_id [OF h1 h3])
    also have "\<dots> \<longleftrightarrow> c' = m"
      using m by auto
    finally show ?thesis .
  qed
  have "parent maxint ?plan self = Inr (find ?P ?ops)"
    using ops wf hs by (rule parent_wf)
  also have "find ?P ?ops =
      (if \<exists>j<length work. 0 + 2 * int j = m
       then Some (JDict (insert_operator m relation it ip)) else None)"
    using scan ins by (rule find_operators_from)
  finally show ?thesis by simp
qed

subsection \<open>Evaluation on given inputs\<close>

lemmas builder_eval =
  get_parallel_import_plan_def get_parallel_import_fragment_def increment_def
  or_dict_def or_str_def DEFAULT_SCAN_TYPE_def DEFAULT_INSERT_TYPE_def Let_def

lemmas view_eval =
  parent_def children_def MyriaPlan_operators_def MyriaPlan_fragments_def find_field_def
  find_slice_def MyriaOperator_id_def getitem_def child_ids_def items_def child_key_def
  str_in_def upper_def upper_cp_def str_def sublist_Cons_right isinstance_int_def py_in_def py_eq_def
  num_of_def

text \<open>
  The plan for two work entries, with no optional argument given: the ids are \<open>0, 1\<close>
  and \<open>2, 3\<close>, the child references \<open>0\<close> and \<open>2\<close>.
\<close>

lemma scenario_two_entries:
  "fst (get_parallel_import_plan (JStr (str ''S'')) [(JInt 1, JStr (str ''srcA'')), (JInt 2, JStr (str ''srcB''))]
          (JStr (str ''R'')) (str '''') None None None None []) =
   JDict [(str ''fragments'',
           JList [JDict [(str ''overrideWorkers'', JList [JInt 1]),
                         (str ''operators'',
                          JList [JDict [(str ''opId'', JInt 0),
                                        (str ''opType'', JStr (str ''FileScan'')),
                                        (str ''schema'', JStr (str ''S'')),
                                        (str ''source'', JStr (str ''srcA''))],
                                 JDict [(str ''opId'', JInt 1),
                                        (str ''opType'', JStr (str ''DbInsert'')),
                                        (str ''argChild'', JInt 0),
                                        (str ''argOverwriteTable'', JBool True),
                                        (str ''relationKey'', JStr (str ''R''))]])],
                  JDict [(str ''overrideWorkers'', JList [JInt 2]),
                         (str ''operators'',
                          JList [JDict [(str ''opId'', JInt 2),
                                        (str ''opType'', JStr (str ''FileScan'')),
                                        (str ''schema'', JStr (str ''S'')),
                                        (str ''source'', JStr (str ''srcB''))],
                                 JDict [(str ''opId'', JInt 3),
                                        (str ''opType'', JStr (str ''DbInsert'')),
                                        (str ''argChild'', JInt 2),
                                        (str ''argOverwriteTable'', JBool True),
                                        (str ''relationKey'', JStr (str ''R''))]])]]),
          (str ''logicalRa'', JStr (str '''')),
          (str ''rawQuery'', JStr (str ''''))]"
  by (simp add: builder_eval)

section \<open>The claims\<close>

text \<open>
  The properties below are stated on \<open>get_parallel_import_plan\<close> called in any store
  \<open>s\<close>, with any description text and any operator types.  Extra parameters are
  written \<open>sp\<close> (scan) and \<open>ip\<close> (insert); \<open>or_dict sp []\<close> is the dictionary that
  is overlaid, empty when the parameter is \<open>None\<close>.
\<close>

subsection \<open>C1: operator ids\<close>

text \<open>
  Claim C1, as amended.  For every schema, relation and work list of \<open>N\<close> entries, when
  the extra scan and insert parameters do not supply \<open>opId\<close> (none are given, or those
  given have other keys), the plan has \<open>N\<close> fragments and \<open>2N\<close> operators; fragment \<open>k\<close>
  holds the operators \<open>2k\<close> (the scan) and \<open>2k + 1\<close> (the insert) of the plan, and the
  \<open>opId\<close> of the \<open>i\<close>-th operator is \<open>i\<close>: the ids are \<open>0, \<dots>, 2N - 1\<close>, increasing in
  the order of the work list, without duplicates.
\<close>

theorem operator_ids_contiguous:
  assumes "str ''opId'' \<notin> fst ` set (or_dict sp [])" and "str ''opId'' \<notin> fst ` set (or_dict ip [])"
  shows "\<exists>frags ops.
     getitem (fst (get_parallel_import_plan schema work relation text_arg sp ip st it s)) (str ''fragments'')
       = Inr (JList frags)
     \<and> length frags = length work
     \<and> map (\<lambda>f. getitem f (str ''operators'')) frags =
         map (\<lambda>k. Inr (JList [ops ! (2 * k), ops ! (2 * k + 1)])) [0..<length work]
     \<and> length ops = 2 * length work
     \<and> map MyriaOperator_id ops = map (\<lambda>i. Inr (JInt (int i))) [0..<2 * length work]
     \<and> distinct (map MyriaOperator_id ops)
     \<and> set (map MyriaOperator_id ops) = (\<lambda>i. Inr (JInt (int i))) ` {0..<2 * length work}"
proof -
  let ?frags = "fragments_from schema relation st it sp ip 0 work"
  let ?ops = "operators_from schema relation st it sp ip 0 work"
  have ids: "map MyriaOperator_id ?ops = map (\<lambda>i. Inr (JInt (int i))) [0..<2 * length work]"
    using operators_from_ids [OF assms, of schema relation st it 0 work] by simp
  have inj: "inj (\<lambda>i. (Inr (JInt (int i)) :: error + json))"
    by (simp add: inj_on_def)
  have dist: "distinct (map MyriaOperator_id ?ops)"
    unfolding ids using inj by (simp add: distinct_map inj_on_def)
  have st: "set (map MyriaOperator_id ?ops) = (\<lambda>i. Inr (JInt (int i))) ` {0..<2 * length work}"
    unfolding ids by simp
  show ?thesis
    using plan_fragments [of schema work relation text_arg sp ip st it s]
      fragments_operators_field [of schema relation st it sp ip 0 work] ids dist st
    by (intro exI [of _ ?frags] exI [of _ ?ops]) simp
qed

theorem operator_ids_contiguous_witness:
  "str ''opId'' \<notin> fst ` set (or_dict None [])
   \<and> str ''opId'' \<notin> fst ` set (or_dict (Some [(str ''opName'', JStr (str ''ins''))]) [])
   \<and> (\<exists>frags ops.
     getitem (fst (get_parallel_import_plan (JStr (str ''S''))
                     [(JInt 1, JStr (str ''a'')), (JInt 2, JStr (str ''b''))] (JStr (str ''R'')) (str '''')
                     None (Some [(str ''opName'', JStr (str ''ins''))]) None None []))
        (str ''fragments'')
       = Inr (JList frags)
     \<and> length frags = 2
     \<and> map (\<lambda>f. getitem f (str ''operators'')) frags =
         [Inr (JList [ops ! 0, ops ! 1]), Inr (JList [ops ! 2, ops ! 3])]
     \<and> length ops = 4
     \<and> map MyriaOperator_id ops = [Inr (JInt 0), Inr (JInt 1), Inr (JInt 2), Inr (JInt 3)])"
proof -
  let ?work = "[(JInt 1, JStr (str ''a'')), (JInt 2, JStr (str ''b''))]"
  let ?ip = "Some [(str ''opName'', JStr (str ''ins''))]"
  have h1: "str ''opId'' \<notin> fst ` set (or_dict None [])"
    by (simp add: or_dict_def)
  have h2: "str ''opId'' \<notin> fst ` set (or_dict ?ip [])"
    by (simp add: or_dict_def)
  have u2: "[0..<2] = [0, 1]" and u4: "[0..<4] = [0, 1, 2, 3]"
    by (simp_all add: upt_rec)
  from operator_ids_contiguous [OF h1 h2, of "JStr (str ''S'')" ?work "JStr (str ''R'')" "str ''''" None None "[]"]
  obtain frags ops where f:
    "getitem (fst (get_parallel_import_plan (JStr (str ''S'')) ?work (JStr (str ''R'')) (str '''')
                     None ?ip None None [])) (str ''fragments'')
       = Inr (JList frags)"
    "length frags = length ?work"
    "map (\<lambda>f. getitem f (str ''operators'')) frags =
         map (\<lambda>k. Inr (JList [ops ! (2 * k), ops ! (2 * k + 1)])) [0..<length ?work]"
    "length ops = 2 * length ?work"
    "map MyriaOperator_id ops = map (\<lambda>i. Inr (JInt (int i))) [0..<2 * length ?work]"
    by blast
  from f(2) have 2: "length frags = 2"
    by simp
  from f(3) have 3: "map (\<lambda>f. getitem f (str ''operators'')) frags =
         [Inr (JList [ops ! 0, ops ! 1]), Inr (JList [ops ! 2, ops ! 3])]"
    by (simp add: u2)
  from f(4) have 4: "length ops = 4"
    by simp
  from f(5) have 5: "map MyriaOperator_id ops = [Inr (JInt 0), Inr (JInt 1), Inr (JInt 2), Inr (JInt 3)]"
    by (simp add: u4)
  show ?thesis
    by (intro exI [of _ frags] exI [of _ ops] conjI) (fact h1 h2 f(1) 2 3 4 5)+
qed

text \<open>
  As stated, for every call of the builder, the claim fails: scan parameters that supply
  \<open>opId\<close> give their value to every scan operator.  With \<open>scan_parameters = {'opId': 7}\<close>
  and two work entries, the ids of the four operators are \<open>7, 1, 7, 3\<close>.
\<close>

theorem operator_ids_contiguous_counterexample:
  "fst (get_parallel_import_plan (JStr (str ''S''))
          [(JInt 1, JStr (str ''a'')), (JInt 2, JStr (str ''b''))] (JStr (str ''R'')) (str '''')
          (Some [(str ''opId'', JInt 7)]) None None None []) =
   JDict [(str ''fragments'',
           JList [JDict [(str ''overrideWorkers'', JList [JInt 1]),
                         (str ''operators'',
                          JList [JDict [(str ''opId'', JInt 7),
                                        (str ''opType'', JStr (str ''FileScan'')),
                                        (str ''schema'', JStr (str ''S'')),
                                        (str ''source'', JStr (str ''a''))],
                                 JDict [(str ''opId'', JInt 1),
                                        (str ''opType'', JStr (str ''DbInsert'')),
                                        (str ''argChild'', JInt 0),
                                        (str ''argOverwriteTable'', JBool True),
                                        (str ''relationKey'', JStr (str ''R''))]])],
                  JDict [(str ''overrideWorkers'', JList [JInt 2]),
                         (str ''operators'',
                          JList [JDict [(str ''opId'', JInt 7),
                                        (str ''opType'', JStr (str ''FileScan'')),
                                        (str ''schema'', JStr (str ''S'')),
                                        (str ''source'', JStr (str ''b''))],
                                 JDict [(str ''opId'', JInt 3),
                                        (str ''opType'', JStr (str ''DbInsert'')),
                                        (str ''argChild'', JInt 2),
                                        (str ''argOverwriteTable'', JBool True),
                                        (str ''relationKey'', JStr (str ''R''))]])]]),
          (str ''logicalRa'', JStr (str '''')),
          (str ''rawQuery'', JStr (str ''''))]
   \<and> \<not> distinct [JInt 7, JInt 1, JInt 7, JInt 3]"
  by (simp add: builder_eval)

subsection \<open>C2: the insert operator refers to its scan operator\<close>

text \<open>
  Claim C2, as amended.  When the scan parameters do not supply \<open>opId\<close> and the insert
  parameters do not supply \<open>argChild\<close>, every fragment \<open>k\<close> of the plan holds exactly its
  scan and its insert operator, and the \<open>argChild\<close> of the insert operator is the
  \<open>opId\<close> of the scan operator, namely \<open>2k\<close>.
\<close>

theorem argChild_is_scan_id:
  assumes "(str ''opId'') \<notin> fst ` set (or_dict sp [])" and "(str ''argChild'') \<notin> fst ` set (or_dict ip [])"
  shows "\<exists>frags.
     getitem (fst (get_parallel_import_plan schema work relation text_arg sp ip st it s)) (str ''fragments'')
       = Inr (JList frags)
     \<and> length frags = length work
     \<and> (\<forall>k<length work. \<exists>scan ins.
           getitem (frags ! k) (str ''operators'') = Inr (JList [scan, ins])
           \<and> MyriaFragment_operators (frags ! k) = Inr [scan, ins]
           \<and> MyriaOperator_id scan = Inr (JInt (2 * int k))
           \<and> getitem ins (str ''argChild'') = Inr (JInt (2 * int k)))"
proof -
  let ?frags = "fragments_from schema relation st it sp ip 0 work"
  have "\<exists>scan ins.
           getitem (?frags ! k) (str ''operators'') = Inr (JList [scan, ins])
           \<and> MyriaFragment_operators (?frags ! k) = Inr [scan, ins]
           \<and> MyriaOperator_id scan = Inr (JInt (2 * int k))
           \<and> getitem ins (str ''argChild'') = Inr (JInt (2 * int k))" if "k < length work" for k
  proof -
    let ?scan = "JDict (scan_operator (2 * int k) schema st sp (snd (work ! k)))"
    let ?ins = "JDict (insert_operator (2 * int k) relation it ip)"
    have 1: "getitem (?frags ! k) (str ''operators'') = Inr (JList [?scan, ?ins])"
      using that by (simp add: fragments_from_nth getitem_fragment_at_operators)
    have 2: "MyriaFragment_operators (?frags ! k) = Inr [?scan, ?ins]"
      using that
      by (simp add: fragments_from_nth fragment_at_def MyriaFragment_operators_def find_field_def
          find_slice_def)
    have 3: "MyriaOperator_id ?scan = Inr (JInt (2 * int k))"
      using assms(1) by (simp add: MyriaOperator_id_def getitem_JDict scan_operator_opId)
    have 4: "getitem ?ins (str ''argChild'') = Inr (JInt (2 * int k))"
      using assms(2) by (simp add: getitem_JDict insert_operator_argChild)
    from 1 2 3 4 show ?thesis by blast
  qed
  then show ?thesis
    using plan_fragments [of schema work relation text_arg sp ip st it s]
    by (intro exI [of _ ?frags]) simp
qed

theorem argChild_is_scan_id_witness:
  "(str ''opId'') \<notin> fst ` set (or_dict None [])
   \<and> (str ''argChild'') \<notin> fst ` set (or_dict (Some [(str ''opName'', JStr (str ''ins''))]) [])
   \<and> (\<exists>frags.
     getitem (fst (get_parallel_import_plan (JStr (str ''S'')) [(JInt 1, JStr (str ''a'')), (JInt 2, JStr (str ''b''))]
                (JStr (str ''R'')) (str '''') None (Some [(str ''opName'', JStr (str ''ins''))]) None None [])) (str ''fragments'')
       = Inr (JList frags)
     \<and> length frags = 2
     \<and> (\<exists>scan ins.
           getitem (frags ! 1) (str ''operators'') = Inr (JList [scan, ins])
           \<and> MyriaFragment_operators (frags ! 1) = Inr [scan, ins]
           \<and> MyriaOperator_id scan = Inr (JInt 2)
           \<and> getitem ins (str ''argChild'') = Inr (JInt 2)))"
proof -
  have h1: "(str ''opId'') \<notin> fst ` set (or_dict None [])"
    by (simp add: or_dict_def)
  have h2: "(str ''argChild'') \<notin> fst ` set (or_dict (Some [(str ''opName'', JStr (str ''ins''))]) [])"
    by (simp add: or_dict_def)
  from argChild_is_scan_id [OF h1 h2, of "JStr (str ''S'')" "[(JInt 1, JStr (str ''a'')), (JInt 2, JStr (str ''b''))]"
      "JStr (str ''R'')" "(str '''')" None None "[]"]
  obtain frags where f:
    "getitem (fst (get_parallel_import_plan (JStr (str ''S'')) [(JInt 1, JStr (str ''a'')), (JInt 2, JStr (str ''b''))]
                (JStr (str ''R'')) (str '''') None (Some [(str ''opName'', JStr (str ''ins''))]) None None [])) (str ''fragments'')
       = Inr (JList frags)"
    "length frags = 2"
    "\<forall>k<2. \<exists>scan ins.
           getitem (frags ! k) (str ''operators'') = Inr (JList [scan, ins])
           \<and> MyriaFragment_operators (frags ! k) = Inr [scan, ins]
           \<and> MyriaOperator_id scan = Inr (JInt (2 * int k))
           \<and> getitem ins (str ''argChild'') = Inr (JInt (2 * int k))"
    by auto
  from f(3) have "\<exists>scan ins.
           getitem (frags ! 1) (str ''operators'') = Inr (JList [scan, ins])
           \<and> MyriaFragment_operators (frags ! 1) = Inr [scan, ins]
           \<and> MyriaOperator_id scan = Inr (JInt 2)
           \<and> getitem ins (str ''argChild'') = Inr (JInt 2)"
    by (auto dest: spec [of _ 1])
  with f(1,2) h1 h2 show ?thesis by blast
qed

text \<open>
  As stated, for every fragment the builder produces, the claim fails: scan parameters
  that supply \<open>opId\<close> replace the id of the scan operator, and \<open>argChild\<close> still holds
  the id that was allocated; insert parameters that supply \<open>argChild\<close> replace the
  reference, and the scan operator keeps its id.
\<close>

theorem argChild_is_scan_id_counterexample:
  "fst (get_parallel_import_plan (JStr (str ''S'')) [(JInt 1, JStr (str ''a''))] (JStr (str ''R'')) (str '''')
          (Some [(str ''opId'', JInt 99)]) None None None []) =
   JDict [(str ''fragments'',
           JList [JDict [(str ''overrideWorkers'', JList [JInt 1]),
                         (str ''operators'',
                          JList [JDict [(str ''opId'', JInt 99),
                                        (str ''opType'', JStr (str ''FileScan'')),
                                        (str ''schema'', JStr (str ''S'')),
                                        (str ''source'', JStr (str ''a''))],
                                 JDict [(str ''opId'', JInt 1),
                                        (str ''opType'', JStr (str ''DbInsert'')),
                                        (str ''argChild'', JInt 0),
                                        (str ''argOverwriteTable'', JBool True),
                                        (str ''relationKey'', JStr (str ''R''))]])]]),
          (str ''logicalRa'', JStr (str '''')),
          (str ''rawQuery'', JStr (str ''''))]
   \<and> JInt 0 \<noteq> JInt 99
   \<and> fst (get_parallel_import_plan (JStr (str ''S'')) [(JInt 1, JStr (str ''a''))] (JStr (str ''R'')) (str '''')
          None (Some [(str ''argChild'', JInt 7)]) None None []) =
   JDict [(str ''fragments'',
           JList [JDict [(str ''overrideWorkers'', JList [JInt 1]),
                         (str ''operators'',
                          JList [JDict [(str ''opId'', JInt 0),
                                        (str ''opType'', JStr (str ''FileScan'')),
                                        (str ''schema'', JStr (str ''S'')),
                                        (str ''source'', JStr (str ''a''))],
                                 JDict [(str ''opId'', JInt 1),
                                        (str ''opType'', JStr (str ''DbInsert'')),
                                        (str ''argChild'', JInt 7),
                                        (str ''argOverwriteTable'', JBool True),
                                        (str ''relationKey'', JStr (str ''R''))]])]]),
          (str ''logicalRa'', JStr (str '''')),
          (str ''rawQuery'', JStr (str ''''))]
   \<and> JInt 7 \<noteq> JInt 0"
  by (simp add: get_parallel_import_plan_def get_parallel_import_fragment_def increment_def
      or_dict_def or_str_def DEFAULT_SCAN_TYPE_def DEFAULT_INSERT_TYPE_def Let_def)

subsection \<open>C3: reading the built document through the views\<close>

text \<open>
  Claim C3, as amended.  The builder puts the fragments at the top level of its document,
  under \<open>fragments\<close>; \<open>MyriaPlan\<close> reads them at \<open>plan.fragments\<close>.  The view of the
  document as built therefore enumerates no fragment and no operator.  When the document
  is put under the key \<open>plan\<close> of a dictionary, the view enumerates exactly the
  fragments and the operators that the builder produced, in the same order: the same
  number of fragments, the same operators (and so the same operator ids) in each
  fragment, and the same workers \<open>[workerId]\<close> for each fragment.
\<close>

theorem view_round_trip:
  "MyriaPlan_fragments (fst (get_parallel_import_plan schema work relation text_arg sp ip st it s)) = Inr []
   \<and> MyriaPlan_operators (fst (get_parallel_import_plan schema work relation text_arg sp ip st it s)) = Inr []
   \<and> (\<exists>frags ops.
        getitem (fst (get_parallel_import_plan schema work relation text_arg sp ip st it s)) (str ''fragments'')
          = Inr (JList frags)
        \<and> map (\<lambda>f. getitem f (str ''operators'')) frags =
            map (\<lambda>k. Inr (JList [ops ! (2 * k), ops ! (2 * k + 1)])) [0..<length work]
        \<and> length frags = length work
        \<and> length ops = 2 * length work
        \<and> MyriaPlan_fragments
            (JDict [(str ''plan'', fst (get_parallel_import_plan schema work relation text_arg sp ip st it s))])
          = Inr frags
        \<and> MyriaPlan_operators
            (JDict [(str ''plan'', fst (get_parallel_import_plan schema work relation text_arg sp ip st it s))])
          = Inr ops
        \<and> map MyriaFragment_operators frags =
            map (\<lambda>k. Inr [ops ! (2 * k), ops ! (2 * k + 1)]) [0..<length work]
        \<and> map MyriaFragment_workers frags = map (\<lambda>a. Inr (JList [fst a])) work)"
proof -
  let ?frags = "fragments_from schema relation st it sp ip 0 work"
  let ?ops = "operators_from schema relation st it sp ip 0 work"
  show ?thesis
    using plan_fragments [of schema work relation text_arg sp ip st it s]
      fragments_operators_field [of schema relation st it sp ip 0 work]
      fragment_view_operators [of schema relation st it sp ip 0 work]
      fragment_view_workers [of schema relation st it sp ip 0 work]
      view_fragments_under_plan [of schema work relation text_arg sp ip st it s]
      view_operators_under_plan [of schema work relation text_arg sp ip st it s]
      view_fragments_unwrapped [of schema work relation text_arg sp ip st it s]
      view_operators_unwrapped [of schema work relation text_arg sp ip st it s]
    by (intro conjI exI [of _ ?frags] exI [of _ ?ops]) simp_all
qed

text \<open>
  As stated, with the built document passed to the view as it is, the claim fails for a
  work list of one entry: the document has one fragment, the view enumerates none.
\<close>

theorem view_round_trip_counterexample:
  "getitem (fst (get_parallel_import_plan (JStr (str ''S'')) [(JInt 1, JStr (str ''a''))] (JStr (str ''R'')) (str '''')
                  None None None None [])) (str ''fragments'') =
     Inr (JList [JDict [(str ''overrideWorkers'', JList [JInt 1]),
                        (str ''operators'',
                         JList [JDict [(str ''opId'', JInt 0),
                                       (str ''opType'', JStr (str ''FileScan'')),
                                       (str ''schema'', JStr (str ''S'')),
                                       (str ''source'', JStr (str ''a''))],
                                JDict [(str ''opId'', JInt 1),
                                       (str ''opType'', JStr (str ''DbInsert'')),
                                       (str ''argChild'', JInt 0),
                                       (str ''argOverwriteTable'', JBool True),
                                       (str ''relationKey'', JStr (str ''R''))]])]])
   \<and> MyriaPlan_fragments (fst (get_parallel_import_plan (JStr (str ''S'')) [(JInt 1, JStr (str ''a''))] (JStr (str ''R'')) (str '''')
                  None None None None [])) = Inr []
   \<and> MyriaPlan_operators (fst (get_parallel_import_plan (JStr (str ''S'')) [(JInt 1, JStr (str ''a''))] (JStr (str ''R'')) (str '''')
                  None None None None [])) = Inr []"
  by (simp add: get_parallel_import_plan_def get_parallel_import_fragment_def increment_def
      or_dict_def or_str_def DEFAULT_SCAN_TYPE_def DEFAULT_INSERT_TYPE_def Let_def
      getitem_def MyriaPlan_fragments_def MyriaPlan_operators_def find_field_def)

subsection \<open>C4: parent\<close>

text \<open>
  Claim C4, as amended.  On a plan whose operators all have an \<open>opId\<close>, and for an operator
  view that has one, \<open>parent\<close> returns the first operator of the plan, in its enumeration
  order, one of whose children has the id of this operator, or \<open>None\<close> when there is
  none; the children of an operator are the operators of the plan whose id is one of its
  child ids.  On the view of the built document as it is, \<open>parent\<close> is \<open>None\<close> for every
  operator, since that view enumerates no operators.  On the view of the built document
  put under the key \<open>plan\<close>, when the extra parameters supply neither \<open>opId\<close> nor a key
  that \<open>_child_ids\<close> selects (one with a segment that \<open>upper()\<close> turns into \<open>CHILD\<close>,
  which a key with the dotless i in \<open>ch\<close>, U+0131, \<open>ld\<close> has too), and the ids
  \<open>0, \<dots>, 2N - 1\<close> are of the type \<open>int\<close> (\<open>2N \<le> sys.maxint\<close>), the parent of the scan
  operator of every fragment is the insert operator of the same fragment, and the parent
  of every insert operator is \<open>None\<close>.
\<close>

theorem parent_first_referrer:
  assumes "MyriaPlan_operators plan = Inr ops" and "list_all has_id ops" and "has_id self"
    and "(str ''opId'') \<notin> fst ` set (or_dict sp [])"
    and "\<not> list_ex child_key (map fst (or_dict sp []))"
    and "(str ''opId'') \<notin> fst ` set (or_dict ip [])"
    and "\<not> list_ex child_key (map fst (or_dict ip []))"
    and "2 * int (length work) \<le> maxint"
  shows "parent maxint plan self = Inr (find (\<lambda>op. list_ex (same_id self) (fst (children maxint plan op))) ops)
     \<and> list_all (\<lambda>op. children maxint plan op = (filter (child_of maxint op) ops, None)) ops
     \<and> parent maxint (fst (get_parallel_import_plan schema work relation text_arg sp ip st it s)) x = Inr None
     \<and> (\<exists>frags bops.
          MyriaPlan_fragments
            (JDict [(str ''plan'', fst (get_parallel_import_plan schema work relation text_arg sp ip st it s))])
            = Inr frags
          \<and> MyriaPlan_operators
            (JDict [(str ''plan'', fst (get_parallel_import_plan schema work relation text_arg sp ip st it s))])
            = Inr bops
          \<and> length bops = 2 * length work
          \<and> map MyriaFragment_operators frags =
              map (\<lambda>k. Inr [bops ! (2 * k), bops ! (2 * k + 1)]) [0..<length work]
          \<and> (\<forall>k<length work.
                parent maxint
                  (JDict [(str ''plan'', fst (get_parallel_import_plan schema work relation text_arg sp ip st it s))])
                  (bops ! (2 * k)) = Inr (Some (bops ! (2 * k + 1)))
                \<and> parent maxint
                  (JDict [(str ''plan'', fst (get_parallel_import_plan schema work relation text_arg sp ip st it s))])
                  (bops ! (2 * k + 1)) = Inr None))"
proof (intro conjI)
  show "parent maxint plan self = Inr (find (\<lambda>op. list_ex (same_id self) (fst (children maxint plan op))) ops)"
    using assms(1-3) by (rule parent_wf)
  show "list_all (\<lambda>op. children maxint plan op = (filter (child_of maxint op) ops, None)) ops"
    using assms(2) children_wf [OF assms(1,2)] by (simp add: list_all_iff)
  show "parent maxint (fst (get_parallel_import_plan schema work relation text_arg sp ip st it s)) x = Inr None"
    by (simp add: parent_def view_operators_unwrapped)
  let ?plan = "JDict [(str ''plan'', fst (get_parallel_import_plan schema work relation text_arg sp ip st it s))]"
  let ?frags = "fragments_from schema relation st it sp ip 0 work"
  let ?bops = "operators_from schema relation st it sp ip 0 work"
  have "parent maxint ?plan (?bops ! (2 * k)) = Inr (Some (?bops ! (2 * k + 1)))
        \<and> parent maxint ?plan (?bops ! (2 * k + 1)) = Inr None" if k: "k < length work" for k
  proof -
    let ?scan = "JDict (scan_operator (2 * int k) schema st sp (snd (work ! k)))"
    let ?ins = "JDict (insert_operator (2 * int k) relation it ip)"
    have nth: "?bops ! (2 * k) = ?scan" "?bops ! (2 * k + 1) = ?ins"
      using operators_from_nth [OF k, of schema relation st it sp ip 0] by simp_all
    have id_scan: "MyriaOperator_id ?scan = Inr (JInt (2 * int k))"
      using assms(4) by (simp add: MyriaOperator_id_def getitem_JDict scan_operator_opId)
    have id_ins: "MyriaOperator_id ?ins = Inr (JInt (2 * int k + 1))"
      using assms(6) by (simp add: MyriaOperator_id_def getitem_JDict insert_operator_opId)
    have le: "2 * int k \<le> maxint" "2 * int k + 1 \<le> maxint"
      using k assms(8) by simp_all
    have even: "\<exists>j<length work. 2 * int j = 2 * int k"
      using k by blast
    have odd: "\<not> (\<exists>j<length work. 2 * int j = 2 * int k + 1)"
      by presburger
    have p_scan: "parent maxint ?plan ?scan = Inr (Some ?ins)"
      using parent_under_plan [OF assms(4-7) id_scan _ _ le(1), of work schema relation text_arg st it s]
        k even
      by simp
    have p_ins: "parent maxint ?plan ?ins = Inr None"
      using parent_under_plan [OF assms(4-7) id_ins _ _ le(2), of work schema relation text_arg st it s]
        k odd
      by simp
    show ?thesis
      unfolding nth using p_scan p_ins by simp
  qed
  then show "\<exists>frags bops.
          MyriaPlan_fragments ?plan = Inr frags
          \<and> MyriaPlan_operators ?plan = Inr bops
          \<and> length bops = 2 * length work
          \<and> map MyriaFragment_operators frags =
              map (\<lambda>k. Inr [bops ! (2 * k), bops ! (2 * k + 1)]) [0..<length work]
          \<and> (\<forall>k<length work.
                parent maxint ?plan (bops ! (2 * k)) = Inr (Some (bops ! (2 * k + 1)))
                \<and> parent maxint ?plan (bops ! (2 * k + 1)) = Inr None)"
    using view_fragments_under_plan [of schema work relation text_arg sp ip st it s]
      view_operators_under_plan [of schema work relation text_arg sp ip st it s]
      fragment_view_operators [of schema relation st it sp ip 0 work]
    by (intro exI [of _ ?frags] exI [of _ ?bops]) simp
qed

theorem parent_first_referrer_witness:
  "MyriaPlan_operators
     (JDict [(str ''plan'', JDict [(str ''fragments'', JList [JDict [(str ''operators'',
        JList [JDict [(str ''opId'', JInt 0)], JDict [(str ''opId'', JInt 1), (str ''leftChild'', JInt 0)]])]])])])
     = Inr [JDict [(str ''opId'', JInt 0)], JDict [(str ''opId'', JInt 1), (str ''leftChild'', JInt 0)]]
   \<and> list_all has_id [JDict [(str ''opId'', JInt 0)], JDict [(str ''opId'', JInt 1), (str ''leftChild'', JInt 0)]]
   \<and> has_id (JDict [(str ''opId'', JInt 0)])
   \<and> (str ''opId'') \<notin> fst ` set (or_dict None [])
   \<and> \<not> list_ex child_key (map fst (or_dict None []))
   \<and> 2 * int (length [(JInt 1, JStr (str ''a''))]) \<le> (9223372036854775807 :: int)
   \<and> parent 9223372036854775807
       (JDict [(str ''plan'', JDict [(str ''fragments'', JList [JDict [(str ''operators'',
          JList [JDict [(str ''opId'', JInt 0)], JDict [(str ''opId'', JInt 1), (str ''leftChild'', JInt 0)]])]])])])
       (JDict [(str ''opId'', JInt 0)])
     = Inr (Some (JDict [(str ''opId'', JInt 1), (str ''leftChild'', JInt 0)]))
   \<and> (\<exists>bops.
        MyriaPlan_operators
          (JDict [(str ''plan'', fst (get_parallel_import_plan (JStr (str ''S'')) [(JInt 1, JStr (str ''a''))] (JStr (str ''R''))
                                    (str '''') None None None None []))])
          = Inr bops
        \<and> length bops = 2
        \<and> parent 9223372036854775807
            (JDict [(str ''plan'', fst (get_parallel_import_plan (JStr (str ''S'')) [(JInt 1, JStr (str ''a''))] (JStr (str ''R''))
                                      (str '''') None None None None []))])
            (bops ! 0) = Inr (Some (bops ! 1))
        \<and> parent 9223372036854775807
            (JDict [(str ''plan'', fst (get_parallel_import_plan (JStr (str ''S'')) [(JInt 1, JStr (str ''a''))] (JStr (str ''R''))
                                      (str '''') None None None None []))])
            (bops ! 1) = Inr None)"
proof -
  let ?A = "JDict [(str ''opId'', JInt 0)]"
  let ?B = "JDict [(str ''opId'', JInt 1), (str ''leftChild'', JInt 0)]"
  let ?plan = "JDict [(str ''plan'', JDict [(str ''fragments'', JList [JDict [(str ''operators'', JList [?A, ?B])]])])]"
  let ?built = "JDict [(str ''plan'', fst (get_parallel_import_plan (JStr (str ''S'')) [(JInt 1, JStr (str ''a''))] (JStr (str ''R''))
                                    (str '''') None None None None []))]"
  have h1: "MyriaPlan_operators ?plan = Inr [?A, ?B]"
    by (simp add: MyriaPlan_operators_def MyriaPlan_fragments_def find_field_def find_slice_def)
  have h2: "list_all has_id [?A, ?B]"
    by (simp add: has_id_def MyriaOperator_id_def getitem_def)
  have h3: "has_id ?A"
    by (simp add: has_id_def MyriaOperator_id_def getitem_def)
  have h4: "(str ''opId'') \<notin> fst ` set (or_dict None [])"
    by (simp add: or_dict_def)
  have h5: "\<not> list_ex child_key (map fst (or_dict None []))"
    by (simp add: or_dict_def)
  have h6: "2 * int (length [(JInt 1, JStr (str ''a''))]) \<le> (9223372036854775807 :: int)"
    by simp
  note t = parent_first_referrer [OF h1 h2 h3 h4 h5 h4 h5 h6, where schema = "JStr (str ''S'')"
      and relation = "JStr (str ''R'')" and text_arg = "(str '''')"
      and st = None and it = None and s = "[]" and x = ?A]
  from t have "parent 9223372036854775807 ?plan ?A =
      Inr (find (\<lambda>op. list_ex (same_id ?A) (fst (children 9223372036854775807 ?plan op))) [?A, ?B])"
    by blast
  then have p: "parent 9223372036854775807 ?plan ?A = Inr (Some ?B)"
    by (simp add: same_id_def view_eval)
  from t obtain bops where b:
    "MyriaPlan_operators ?built = Inr bops"
    "length bops = 2 * length [(JInt 1, JStr (str ''a''))]"
    "\<forall>k<length [(JInt 1, JStr (str ''a''))].
        parent 9223372036854775807 ?built (bops ! (2 * k)) = Inr (Some (bops ! (2 * k + 1)))
        \<and> parent 9223372036854775807 ?built (bops ! (2 * k + 1)) = Inr None"
    by blast
  from b(3) have "parent 9223372036854775807 ?built (bops ! 0) = Inr (Some (bops ! 1)) \<and> parent 9223372036854775807 ?built (bops ! 1) = Inr None"
    by (auto dest: spec [of _ 0])
  with b(1,2) have "\<exists>bops. MyriaPlan_operators ?built = Inr bops \<and> length bops = 2
      \<and> parent 9223372036854775807 ?built (bops ! 0) = Inr (Some (bops ! 1)) \<and> parent 9223372036854775807 ?built (bops ! 1) = Inr None"
    by auto
  with h1 h2 h3 h4 h5 h6 p show ?thesis
    by blast
qed

text \<open>
  As stated, the second part of the claim fails in two ways.  On the view of the built
  document as it is, the parent of the scan operator is \<open>None\<close>.  And when the scan
  parameters supply a property \<open>argChild\<close> that holds the id of the insert operator, the
  parent of the insert operator is the scan operator; a property whose key is \<open>ch\<close>, the
  dotless i (U+0131), \<open>ld\<close> does the same.  The first part fails on a plan one of whose
  operators has no \<open>opId\<close>: there \<open>parent\<close> raises \<open>KeyError\<close>.
\<close>

theorem parent_first_referrer_counterexample:
  "getitem (fst (get_parallel_import_plan (JStr (str ''S'')) [(JInt 1, JStr (str ''a''))] (JStr (str ''R'')) (str '''')
                  None None None None [])) (str ''fragments'') =
     Inr (JList [JDict [(str ''overrideWorkers'', JList [JInt 1]),
                        (str ''operators'',
                         JList [JDict [(str ''opId'', JInt 0),
                                       (str ''opType'', JStr (str ''FileScan'')),
                                       (str ''schema'', JStr (str ''S'')),
                                       (str ''source'', JStr (str ''a''))],
                                JDict [(str ''opId'', JInt 1),
                                       (str ''opType'', JStr (str ''DbInsert'')),
                                       (str ''argChild'', JInt 0),
                                       (str ''argOverwriteTable'', JBool True),
                                       (str ''relationKey'', JStr (str ''R''))]])]])
   \<and> parent 9223372036854775807 (fst (get_parallel_import_plan (JStr (str ''S'')) [(JInt 1, JStr (str ''a''))] (JStr (str ''R'')) (str '''')
                  None None None None []))
        (JDict [(str ''opId'', JInt 0),
                (str ''opType'', JStr (str ''FileScan'')),
                (str ''schema'', JStr (str ''S'')),
                (str ''source'', JStr (str ''a''))]) = Inr None
   \<and> MyriaPlan_operators
        (JDict [(str ''plan'', fst (get_parallel_import_plan (JStr (str ''S'')) [(JInt 1, JStr (str ''a''))] (JStr (str ''R'')) (str '''')
                  (Some [(str ''argChild'', JInt 1)]) None None None []))]) =
     Inr [JDict [(str ''opId'', JInt 0),
                 (str ''opType'', JStr (str ''FileScan'')),
                 (str ''schema'', JStr (str ''S'')),
                 (str ''source'', JStr (str ''a'')),
                 (str ''argChild'', JInt 1)],
          JDict [(str ''opId'', JInt 1),
                 (str ''opType'', JStr (str ''DbInsert'')),
                 (str ''argChild'', JInt 0),
                 (str ''argOverwriteTable'', JBool True),
                 (str ''relationKey'', JStr (str ''R''))]]
   \<and> parent 9223372036854775807
        (JDict [(str ''plan'', fst (get_parallel_import_plan (JStr (str ''S'')) [(JInt 1, JStr (str ''a''))] (JStr (str ''R'')) (str '''')
                  (Some [(str ''argChild'', JInt 1)]) None None None []))])
        (JDict [(str ''opId'', JInt 1),
                (str ''opType'', JStr (str ''DbInsert'')),
                (str ''argChild'', JInt 0),
                (str ''argOverwriteTable'', JBool True),
                (str ''relationKey'', JStr (str ''R''))]) =
     Inr (Some (JDict [(str ''opId'', JInt 0),
                       (str ''opType'', JStr (str ''FileScan'')),
                       (str ''schema'', JStr (str ''S'')),
                       (str ''source'', JStr (str ''a'')),
                       (str ''argChild'', JInt 1)]))
   \<and> parent 9223372036854775807
        (JDict [(str ''plan'', JDict [(str ''fragments'', JList [JDict [(str ''operators'',
           JList [JDict [(str ''opName'', JStr (str ''scan''))],
                  JDict [(str ''opId'', JInt 1), (str ''argChild'', JInt 0)]])]])])])
        (JDict [(str ''opId'', JInt 1), (str ''argChild'', JInt 0)]) = Inl KeyError
   \<and> parent 9223372036854775807
        (JDict [(str ''plan'', fst (get_parallel_import_plan (JStr (str ''S'')) [(JInt 1, JStr (str ''a''))] (JStr (str ''R'')) (str '''')
                  (Some [([99, 104, 305, 108, 100], JInt 1)]) None None None []))])
        (JDict [(str ''opId'', JInt 1),
                (str ''opType'', JStr (str ''DbInsert'')),
                (str ''argChild'', JInt 0),
                (str ''argOverwriteTable'', JBool True),
                (str ''relationKey'', JStr (str ''R''))]) =
     Inr (Some (JDict [(str ''opId'', JInt 0),
                       (str ''opType'', JStr (str ''FileScan'')),
                       (str ''schema'', JStr (str ''S'')),
                       (str ''source'', JStr (str ''a'')),
                       ([99, 104, 305, 108, 100], JInt 1)]))"
  by (simp add: builder_eval view_eval)

subsection \<open>C5: children\<close>

text \<open>
  Claim C5, as amended.  The child ids of an operator (a dictionary) are the values of
  exactly those of its properties whose key has a segment of five characters that
  \<open>upper()\<close> turns into \<open>CHILD\<close> and whose value is an instance of \<open>int\<close>: an integer
  of the type \<open>int\<close>, that is within \<open>-sys.maxint - 1\<close> and \<open>sys.maxint\<close>, or a boolean.
  The segments that \<open>upper()\<close> turns into \<open>CHILD\<close> are the letters c, h, i, l, d, each
  in upper or lower case, where the third may also be the dotless i (U+0131).  The child
  ids are yielded in the order of the items of the dictionary, one for each selected
  property, so an id that two properties hold is yielded twice.
  The plan built without extra scan parameters, put under the key \<open>plan\<close>, has the scan
  operator of fragment \<open>k\<close> as its operator \<open>2k\<close>; it has no child ids, and its children
  are empty, in that view and in the view of the built document as it is.
\<close>

theorem child_ids_selected:
  "child_ids maxint (JDict kvs) =
     Inr (map snd (filter (\<lambda>(key, value).
            (\<exists>pre mid post. key = pre @ mid @ post \<and> upper mid = str ''CHILD'')
            \<and> ((\<exists>i. value = JInt i \<and> - maxint - 1 \<le> i \<and> i \<le> maxint) \<or> (\<exists>b. value = JBool b)))
          kvs))
   \<and> (\<forall>mid. upper mid = str ''CHILD'' \<longleftrightarrow>
         (\<exists>c h i l d. mid = [c, h, i, l, d]
            \<and> (c = of_char CHR ''C'' \<or> c = of_char CHR ''c'')
            \<and> (h = of_char CHR ''H'' \<or> h = of_char CHR ''h'')
            \<and> (i = of_char CHR ''I'' \<or> i = of_char CHR ''i'' \<or> i = 305)
            \<and> (l = of_char CHR ''L'' \<or> l = of_char CHR ''l'')
            \<and> (d = of_char CHR ''D'' \<or> d = of_char CHR ''d'')))
   \<and> (\<exists>ops.
        MyriaPlan_operators
          (JDict [(str ''plan'', fst (get_parallel_import_plan schema work relation text_arg None ip st it s))])
          = Inr ops
        \<and> length ops = 2 * length work
        \<and> (\<forall>k<length work.
              getitem (ops ! (2 * k)) (str ''source'') = Inr (snd (work ! k))
              \<and> child_ids maxint (ops ! (2 * k)) = Inr []
              \<and> children maxint
                  (JDict [(str ''plan'', fst (get_parallel_import_plan schema work relation text_arg None ip st it s))])
                  (ops ! (2 * k)) = ([], None)
              \<and> children maxint (fst (get_parallel_import_plan schema work relation text_arg None ip st it s))
                  (ops ! (2 * k)) = ([], None)))"
proof (intro conjI)
  have sel: "(\<lambda>(key, value). child_key key \<and> isinstance_int maxint value) =
      (\<lambda>(key, value).
            (\<exists>pre mid post. key = pre @ mid @ post \<and> upper mid = str ''CHILD'')
            \<and> ((\<exists>i. value = JInt i \<and> - maxint - 1 \<le> i \<and> i \<le> maxint) \<or> (\<exists>b. value = JBool b)))"
    unfolding child_key_iff isinstance_int_iff ..
  show "child_ids maxint (JDict kvs) =
     Inr (map snd (filter (\<lambda>(key, value).
            (\<exists>pre mid post. key = pre @ mid @ post \<and> upper mid = str ''CHILD'')
            \<and> ((\<exists>i. value = JInt i \<and> - maxint - 1 \<le> i \<and> i \<le> maxint) \<or> (\<exists>b. value = JBool b)))
          kvs))"
    unfolding sel [symmetric] by (rule child_ids_JDict)
  show "\<forall>mid. upper mid = str ''CHILD'' \<longleftrightarrow>
         (\<exists>c h i l d. mid = [c, h, i, l, d]
            \<and> (c = of_char CHR ''C'' \<or> c = of_char CHR ''c'')
            \<and> (h = of_char CHR ''H'' \<or> h = of_char CHR ''h'')
            \<and> (i = of_char CHR ''I'' \<or> i = of_char CHR ''i'' \<or> i = 305)
            \<and> (l = of_char CHR ''L'' \<or> l = of_char CHR ''l'')
            \<and> (d = of_char CHR ''D'' \<or> d = of_char CHR ''d''))"
    by (intro allI) (rule upper_eq_CHILD)
  let ?doc = "fst (get_parallel_import_plan schema work relation text_arg None ip st it s)"
  let ?plan = "JDict [(str ''plan'', ?doc)]"
  let ?ops = "operators_from schema relation st it None ip 0 work"
  have ops: "MyriaPlan_operators ?plan = Inr ?ops"
    by (rule view_operators_under_plan)
  have raw: "MyriaPlan_operators ?doc = Inr []"
    by (rule view_operators_unwrapped)
  have "getitem (?ops ! (2 * k)) (str ''source'') = Inr (snd (work ! k))
        \<and> child_ids maxint (?ops ! (2 * k)) = Inr []
        \<and> children maxint ?plan (?ops ! (2 * k)) = ([], None)
        \<and> children maxint ?doc (?ops ! (2 * k)) = ([], None)" if "k < length work" for k
  proof -
    let ?scan = "JDict (scan_operator (2 * int k) schema st None (snd (work ! k)))"
    have nth: "?ops ! (2 * k) = ?scan"
      using operators_from_nth [OF that, of schema relation st it None ip 0] by simp
    have c0: "child_ids maxint ?scan = Inr []"
      by (rule child_ids_scan_no_parameters)
    have c1: "children maxint ?plan ?scan = ([], None)"
      using children_wf [OF ops has_id_operators_from, of ?scan]
      by (simp add: has_id_scan_operator child_of_no_children [OF c0])
    have c2: "children maxint ?doc ?scan = ([], None)"
      by (simp add: children_def raw)
    show ?thesis
      unfolding nth using c0 c1 c2 by (simp add: getitem_scan_source)
  qed
  then show "\<exists>ops. MyriaPlan_operators ?plan = Inr ops
        \<and> length ops = 2 * length work
        \<and> (\<forall>k<length work.
              getitem (ops ! (2 * k)) (str ''source'') = Inr (snd (work ! k))
              \<and> child_ids maxint (ops ! (2 * k)) = Inr []
              \<and> children maxint ?plan (ops ! (2 * k)) = ([], None)
              \<and> children maxint ?doc (ops ! (2 * k)) = ([], None))"
    using ops by (intro exI [of _ ?ops]) simp
qed

theorem child_ids_selected_witness:
  "child_ids 9223372036854775807
      (JDict [(str ''opId'', JInt 1), (str ''argChild'', JInt 0), (str ''opName'', JStr (str ''child'')),
              (str ''leftCHILD'', JInt 0), (str ''children'', JBool True),
              (str ''argChild2'', JInt 9223372036854775808), (str ''argChild3'', JLong 5)])
     = Inr [JInt 0, JInt 0, JBool True]
   \<and> (\<exists>ops.
        MyriaPlan_operators
          (JDict [(str ''plan'', fst (get_parallel_import_plan (JStr (str ''S'')) [(JInt 1, JStr (str ''a''))] (JStr (str ''R''))
                                    (str '''') None None None None []))])
          = Inr ops
        \<and> length ops = 2
        \<and> getitem (ops ! 0) (str ''source'') = Inr (JStr (str ''a''))
        \<and> child_ids 9223372036854775807 (ops ! 0) = Inr []
        \<and> children 9223372036854775807
            (JDict [(str ''plan'', fst (get_parallel_import_plan (JStr (str ''S'')) [(JInt 1, JStr (str ''a''))] (JStr (str ''R''))
                                      (str '''') None None None None []))])
            (ops ! 0) = ([], None)
        \<and> children 9223372036854775807
            (fst (get_parallel_import_plan (JStr (str ''S'')) [(JInt 1, JStr (str ''a''))] (JStr (str ''R''))
                                      (str '''') None None None None []))
            (ops ! 0) = ([], None))"
proof -
  let ?M = "9223372036854775807 :: int"
  let ?kvs = "[(str ''opId'', JInt 1), (str ''argChild'', JInt 0), (str ''opName'', JStr (str ''child'')),
              (str ''leftCHILD'', JInt 0), (str ''children'', JBool True),
              (str ''argChild2'', JInt 9223372036854775808), (str ''argChild3'', JLong 5)]"
  let ?doc = "fst (get_parallel_import_plan (JStr (str ''S'')) [(JInt 1, JStr (str ''a''))] (JStr (str ''R''))
                                    (str '''') None None None None [])"
  let ?built = "JDict [(str ''plan'', ?doc)]"
  note t = child_ids_selected [where maxint = ?M and kvs = ?kvs and schema = "JStr (str ''S'')"
      and work = "[(JInt 1, JStr (str ''a''))]" and relation = "JStr (str ''R'')" and text_arg = "(str '''')"
      and ip = None and st = None and it = None and s = "[]"]
  from t have "child_ids ?M (JDict ?kvs) =
     Inr (map snd (filter (\<lambda>(key, value).
            (\<exists>pre mid post. key = pre @ mid @ post \<and> upper mid = str ''CHILD'')
            \<and> ((\<exists>i. value = JInt i \<and> - ?M - 1 \<le> i \<and> i \<le> ?M) \<or> (\<exists>b. value = JBool b)))
          ?kvs))"
    by (elim conjE)
  then have "child_ids ?M (JDict ?kvs) =
     Inr (map snd (filter (\<lambda>(key, value). child_key key \<and> isinstance_int ?M value) ?kvs))"
    unfolding child_key_iff [symmetric] isinstance_int_iff [symmetric] .
  then have 1: "child_ids ?M (JDict ?kvs) = Inr [JInt 0, JInt 0, JBool True]"
    by (simp add: child_key_def str_in_def upper_def upper_cp_def str_def sublist_Cons_right
        isinstance_int_def)
  from t obtain ops where b:
    "MyriaPlan_operators ?built = Inr ops"
    "length ops = 2 * length [(JInt 1, JStr (str ''a''))]"
    "\<forall>k<length [(JInt 1, JStr (str ''a''))].
        getitem (ops ! (2 * k)) (str ''source'') = Inr (snd ([(JInt 1, JStr (str ''a''))] ! k))
        \<and> child_ids ?M (ops ! (2 * k)) = Inr []
        \<and> children ?M ?built (ops ! (2 * k)) = ([], None)
        \<and> children ?M ?doc (ops ! (2 * k)) = ([], None)"
    by (elim conjE exE) blast
  from b(3) have "getitem (ops ! 0) (str ''source'') = Inr (JStr (str ''a''))
        \<and> child_ids ?M (ops ! 0) = Inr []
        \<and> children ?M ?built (ops ! 0) = ([], None)
        \<and> children ?M ?doc (ops ! 0) = ([], None)"
    by (auto dest: spec [of _ 0])
  with b(1,2) have 2: "\<exists>ops. MyriaPlan_operators ?built = Inr ops \<and> length ops = 2
        \<and> getitem (ops ! 0) (str ''source'') = Inr (JStr (str ''a''))
        \<and> child_ids ?M (ops ! 0) = Inr []
        \<and> children ?M ?built (ops ! 0) = ([], None)
        \<and> children ?M ?doc (ops ! 0) = ([], None)"
    by auto
  from 1 2 show ?thesis
    by (intro conjI)
qed

text \<open>
  As stated, the claim fails: the child ids are not a set.  Two properties that refer to
  the same operator give its id twice.  A property with a boolean value is selected too.
  An integer is not selected when it has the type \<open>long\<close>, as a value beyond
  \<open>sys.maxint\<close> has (here \<open>sys.maxint\<close> is \<open>2\<^sup>6\<^sup>3 - 1\<close>) and as \<open>0L\<close> has.  And a key
  is selected that has \<open>CHILD\<close> in no mix of cases: \<open>ch\<close>, the dotless i (U+0131),
  \<open>ld\<close>.
\<close>

theorem child_ids_selected_counterexample:
  "child_ids 9223372036854775807
     (JDict [(str ''opId'', JInt 1), (str ''argChild1'', JInt 0), (str ''argChild2'', JInt 0)])
     = Inr [JInt 0, JInt 0]
   \<and> \<not> distinct [JInt 0, JInt 0]
   \<and> child_ids 9223372036854775807
       (JDict [(str ''opId'', JInt 2), (str ''hasChildren'', JBool True)]) = Inr [JBool True]
   \<and> child_ids 9223372036854775807
       (JDict [(str ''opId'', JInt 3), (str ''argChild'', JInt 9223372036854775808)]) = Inr []
   \<and> child_ids 9223372036854775807
       (JDict [(str ''opId'', JInt 4), (str ''argChild'', JLong 0)]) = Inr []
   \<and> child_ids 9223372036854775807
       (JDict [(str ''opId'', JInt 5), ([99, 104, 305, 108, 100], JInt 0)]) = Inr [JInt 0]"
  by (simp add: child_ids_def items_def child_key_def str_in_def upper_def upper_cp_def str_def
      sublist_Cons_right isinstance_int_def)

subsection \<open>C6: the value of argChild\<close>

text \<open>
  Claim C6, as amended.  For every work entry, the builder allocates two ids from the
  counter, the first for the scan operator and the second for the insert operator, and
  sets \<open>argChild\<close> to the value of the counter after the second allocation, minus two.
  The second allocated id is one less than that value of the counter, so \<open>argChild\<close> is
  the id of the insert operator minus one, which is the first allocated id, the id of
  the scan operator of the same entry.  The emitted operators hold these values when the
  scan parameters do not supply \<open>opId\<close> and the insert parameters supply neither \<open>opId\<close>
  nor \<open>argChild\<close>.  In a plan, entry \<open>k\<close> has the ids \<open>2k\<close> and \<open>2k + 1\<close>, and
  \<open>argChild\<close> is \<open>2k\<close>.
\<close>

theorem argChild_from_counter:
  assumes "taskid < length s"
    and "str ''opId'' \<notin> fst ` set (or_dict sp [])"
    and "str ''opId'' \<notin> fst ` set (or_dict ip [])"
    and "str ''argChild'' \<notin> fst ` set (or_dict ip [])"
  shows "(\<exists>scan ins s1 s2.
       increment taskid s = (s ! taskid, s1)
     \<and> increment taskid s1 = (s ! taskid + 1, s2)
     \<and> s2 ! taskid = s ! taskid + 2
     \<and> get_parallel_import_fragment taskid schema relation st it sp ip a s =
         (JDict [(str ''overrideWorkers'', JList [fst a]), (str ''operators'', JList [scan, ins])], s2)
     \<and> MyriaOperator_id scan = Inr (JInt (s ! taskid))
     \<and> MyriaOperator_id ins = Inr (JInt (s ! taskid + 1))
     \<and> getitem ins (str ''argChild'') = Inr (JInt (s2 ! taskid - 2))
     \<and> getitem ins (str ''argChild'') = Inr (JInt ((s ! taskid + 1) - 1))
     \<and> getitem ins (str ''argChild'') = MyriaOperator_id scan)
   \<and> (\<exists>frags.
       getitem (fst (get_parallel_import_plan schema work relation text_arg sp ip st it s'))
         (str ''fragments'') = Inr (JList frags)
     \<and> length frags = length work
     \<and> (\<forall>k<length work. \<exists>scan ins.
           getitem (frags ! k) (str ''operators'') = Inr (JList [scan, ins])
           \<and> MyriaOperator_id scan = Inr (JInt (2 * int k))
           \<and> MyriaOperator_id ins = Inr (JInt (2 * int k + 1))
           \<and> getitem ins (str ''argChild'') = Inr (JInt ((2 * int k + 1) - 1))
           \<and> getitem ins (str ''argChild'') = MyriaOperator_id scan))"
proof
  let ?scan = "JDict (scan_operator (s ! taskid) schema st sp (snd a))"
  let ?ins = "JDict (insert_operator (s ! taskid) relation it ip)"
  let ?s1 = "s[taskid := s ! taskid + 1]"
  let ?s2 = "s[taskid := s ! taskid + 2]"
  have 1: "increment taskid s = (s ! taskid, ?s1)"
    using assms(1) by (simp add: increment_eq)
  have 2: "increment taskid ?s1 = (s ! taskid + 1, ?s2)"
    using assms(1) by (simp add: increment_eq add.commute)
  have 3: "?s2 ! taskid = s ! taskid + 2"
    using assms(1) by simp
  have 4: "get_parallel_import_fragment taskid schema relation st it sp ip a s =
       (JDict [(str ''overrideWorkers'', JList [fst a]), (str ''operators'', JList [?scan, ?ins])], ?s2)"
    using assms(1) by (simp add: fragment_eq fragment_at_def)
  have 5: "MyriaOperator_id ?scan = Inr (JInt (s ! taskid))"
    using assms(2) by (simp add: MyriaOperator_id_def getitem_JDict scan_operator_opId)
  have 6: "MyriaOperator_id ?ins = Inr (JInt (s ! taskid + 1))"
    using assms(3) by (simp add: MyriaOperator_id_def getitem_JDict insert_operator_opId)
  have 7: "getitem ?ins (str ''argChild'') = Inr (JInt (?s2 ! taskid - 2))"
    using assms(1,4) by (simp add: getitem_JDict insert_operator_argChild)
  have 8: "getitem ?ins (str ''argChild'') = Inr (JInt ((s ! taskid + 1) - 1))"
    using assms(4) by (simp add: getitem_JDict insert_operator_argChild)
  have 9: "getitem ?ins (str ''argChild'') = MyriaOperator_id ?scan"
    using 5 8 by simp
  show "\<exists>scan ins s1 s2.
       increment taskid s = (s ! taskid, s1)
     \<and> increment taskid s1 = (s ! taskid + 1, s2)
     \<and> s2 ! taskid = s ! taskid + 2
     \<and> get_parallel_import_fragment taskid schema relation st it sp ip a s =
         (JDict [(str ''overrideWorkers'', JList [fst a]), (str ''operators'', JList [scan, ins])], s2)
     \<and> MyriaOperator_id scan = Inr (JInt (s ! taskid))
     \<and> MyriaOperator_id ins = Inr (JInt (s ! taskid + 1))
     \<and> getitem ins (str ''argChild'') = Inr (JInt (s2 ! taskid - 2))
     \<and> getitem ins (str ''argChild'') = Inr (JInt ((s ! taskid + 1) - 1))
     \<and> getitem ins (str ''argChild'') = MyriaOperator_id scan"
    by (intro exI [of _ ?scan] exI [of _ ?ins] exI [of _ ?s1] exI [of _ ?s2] conjI)
      (fact 1 2 3 4 5 6 7 8 9)+
next
  let ?frags = "fragments_from schema relation st it sp ip 0 work"
  have "\<exists>scan ins.
           getitem (?frags ! k) (str ''operators'') = Inr (JList [scan, ins])
           \<and> MyriaOperator_id scan = Inr (JInt (2 * int k))
           \<and> MyriaOperator_id ins = Inr (JInt (2 * int k + 1))
           \<and> getitem ins (str ''argChild'') = Inr (JInt ((2 * int k + 1) - 1))
           \<and> getitem ins (str ''argChild'') = MyriaOperator_id scan" if "k < length work" for k
  proof -
    let ?scan = "JDict (scan_operator (2 * int k) schema st sp (snd (work ! k)))"
    let ?ins = "JDict (insert_operator (2 * int k) relation it ip)"
    have 1: "getitem (?frags ! k) (str ''operators'') = Inr (JList [?scan, ?ins])"
      using that by (simp add: fragments_from_nth getitem_fragment_at_operators)
    have 2: "MyriaOperator_id ?scan = Inr (JInt (2 * int k))"
      using assms(2) by (simp add: MyriaOperator_id_def getitem_JDict scan_operator_opId)
    have 3: "MyriaOperator_id ?ins = Inr (JInt (2 * int k + 1))"
      using assms(3) by (simp add: MyriaOperator_id_def getitem_JDict insert_operator_opId)
    have 4: "getitem ?ins (str ''argChild'') = Inr (JInt ((2 * int k + 1) - 1))"
      using assms(4) by (simp add: getitem_JDict insert_operator_argChild)
    have 5: "getitem ?ins (str ''argChild'') = MyriaOperator_id ?scan"
      using 2 4 by simp
    from 1 2 3 4 5 show ?thesis by blast
  qed
  then show "\<exists>frags.
       getitem (fst (get_parallel_import_plan schema work relation text_arg sp ip st it s'))
         (str ''fragments'') = Inr (JList frags)
     \<and> length frags = length work
     \<and> (\<forall>k<length work. \<exists>scan ins.
           getitem (frags ! k) (str ''operators'') = Inr (JList [scan, ins])
           \<and> MyriaOperator_id scan = Inr (JInt (2 * int k))
           \<and> MyriaOperator_id ins = Inr (JInt (2 * int k + 1))
           \<and> getitem ins (str ''argChild'') = Inr (JInt ((2 * int k + 1) - 1))
           \<and> getitem ins (str ''argChild'') = MyriaOperator_id scan)"
    using plan_fragments [of schema work relation text_arg sp ip st it s']
    by (intro exI [of _ ?frags]) simp
qed

theorem argChild_from_counter_witness:
  "(0::nat) < length [4::int]
   \<and> str ''opId'' \<notin> fst ` set (or_dict None [])
   \<and> str ''argChild'' \<notin> fst ` set (or_dict None [])
   \<and> (\<exists>scan ins.
       increment 0 [4] = (4, [5])
     \<and> increment 0 [5] = (5, [6])
     \<and> get_parallel_import_fragment 0 (JStr (str ''S'')) (JStr (str ''R'')) None None None None
           (JInt 1, JStr (str ''a'')) [4] =
         (JDict [(str ''overrideWorkers'', JList [JInt 1]), (str ''operators'', JList [scan, ins])], [6])
     \<and> MyriaOperator_id scan = Inr (JInt 4)
     \<and> MyriaOperator_id ins = Inr (JInt 5)
     \<and> getitem ins (str ''argChild'') = Inr (JInt 4))
   \<and> (\<exists>frags.
       getitem (fst (get_parallel_import_plan (JStr (str ''S''))
                  [(JInt 1, JStr (str ''a'')), (JInt 2, JStr (str ''b''))] (JStr (str ''R'')) (str '''')
                  None None None None [])) (str ''fragments'') = Inr (JList frags)
     \<and> length frags = 2
     \<and> (\<exists>scan ins.
           getitem (frags ! 1) (str ''operators'') = Inr (JList [scan, ins])
           \<and> MyriaOperator_id scan = Inr (JInt 2)
           \<and> MyriaOperator_id ins = Inr (JInt 3)
           \<and> getitem ins (str ''argChild'') = Inr (JInt 2)))"
proof -
  let ?work = "[(JInt 1, JStr (str ''a'')), (JInt 2, JStr (str ''b''))]"
  have h0: "(0::nat) < length [4::int]"
    by simp
  have h1: "str ''opId'' \<notin> fst ` set (or_dict None [])"
    by (simp add: or_dict_def)
  have h2: "str ''argChild'' \<notin> fst ` set (or_dict None [])"
    by (simp add: or_dict_def)
  note t = argChild_from_counter [OF h0 h1 h1 h2, where schema = "JStr (str ''S'')"
      and relation = "JStr (str ''R'')" and st = None and it = None
      and a = "(JInt 1, JStr (str ''a''))" and work = ?work and text_arg = "str ''''" and s' = "[]"]
  from t obtain scan ins s1 s2 where f:
    "increment 0 [4] = ([4] ! 0, s1)"
    "increment 0 s1 = ([4] ! 0 + 1, s2)"
    "get_parallel_import_fragment 0 (JStr (str ''S'')) (JStr (str ''R'')) None None None None
           (JInt 1, JStr (str ''a'')) [4] =
         (JDict [(str ''overrideWorkers'', JList [fst (JInt 1, JStr (str ''a''))]),
                 (str ''operators'', JList [scan, ins])], s2)"
    "MyriaOperator_id scan = Inr (JInt ([4] ! 0))"
    "MyriaOperator_id ins = Inr (JInt ([4] ! 0 + 1))"
    "getitem ins (str ''argChild'') = Inr (JInt (([4] ! 0 + 1) - 1))"
    by blast
  from f(1) have s1: "s1 = [5]"
    by (simp add: increment_def)
  from f(2) have s2: "s2 = [6]"
    by (simp add: increment_def s1)
  have a: "\<exists>scan ins.
       increment 0 [4] = (4, [5])
     \<and> increment 0 [5] = (5, [6])
     \<and> get_parallel_import_fragment 0 (JStr (str ''S'')) (JStr (str ''R'')) None None None None
           (JInt 1, JStr (str ''a'')) [4] =
         (JDict [(str ''overrideWorkers'', JList [JInt 1]), (str ''operators'', JList [scan, ins])], [6])
     \<and> MyriaOperator_id scan = Inr (JInt 4)
     \<and> MyriaOperator_id ins = Inr (JInt 5)
     \<and> getitem ins (str ''argChild'') = Inr (JInt 4)"
    using f s1 s2 by (intro exI [of _ scan] exI [of _ ins]) simp
  from t obtain frags where g:
    "getitem (fst (get_parallel_import_plan (JStr (str ''S'')) ?work (JStr (str ''R'')) (str '''')
                  None None None None [])) (str ''fragments'') = Inr (JList frags)"
    "length frags = length ?work"
    "\<forall>k<length ?work. \<exists>scan ins.
           getitem (frags ! k) (str ''operators'') = Inr (JList [scan, ins])
           \<and> MyriaOperator_id scan = Inr (JInt (2 * int k))
           \<and> MyriaOperator_id ins = Inr (JInt (2 * int k + 1))
           \<and> getitem ins (str ''argChild'') = Inr (JInt ((2 * int k + 1) - 1))
           \<and> getitem ins (str ''argChild'') = MyriaOperator_id scan"
    by blast
  from g(3) have "\<exists>scan ins.
           getitem (frags ! 1) (str ''operators'') = Inr (JList [scan, ins])
           \<and> MyriaOperator_id scan = Inr (JInt 2)
           \<and> MyriaOperator_id ins = Inr (JInt 3)
           \<and> getitem ins (str ''argChild'') = Inr (JInt 2)"
    by (auto dest: spec [of _ 1])
  with g(1,2) have b: "\<exists>frags.
       getitem (fst (get_parallel_import_plan (JStr (str ''S'')) ?work (JStr (str ''R'')) (str '''')
                  None None None None [])) (str ''fragments'') = Inr (JList frags)
     \<and> length frags = 2
     \<and> (\<exists>scan ins.
           getitem (frags ! 1) (str ''operators'') = Inr (JList [scan, ins])
           \<and> MyriaOperator_id scan = Inr (JInt 2)
           \<and> MyriaOperator_id ins = Inr (JInt 3)
           \<and> getitem ins (str ''argChild'') = Inr (JInt 2))"
    by auto
  from h0 h1 h2 a b show ?thesis
    by (intro conjI)
qed

text \<open>
  As stated, with \<open>argChild\<close> equal to the id of the insert operator minus two, the claim
  fails on the first fragment of every plan: the insert operator has id \<open>1\<close> and
  \<open>argChild\<close> is \<open>0\<close>, not \<open>-1\<close>.
\<close>

theorem argChild_from_counter_counterexample:
  "fst (get_parallel_import_plan (JStr (str ''S'')) [(JInt 1, JStr (str ''a''))] (JStr (str ''R'')) (str '''')
          None None None None []) =
   JDict [(str ''fragments'',
           JList [JDict [(str ''overrideWorkers'', JList [JInt 1]),
                         (str ''operators'',
                          JList [JDict [(str ''opId'', JInt 0),
                                        (str ''opType'', JStr (str ''FileScan'')),
                                        (str ''schema'', JStr (str ''S'')),
                                        (str ''source'', JStr (str ''a''))],
                                 JDict [(str ''opId'', JInt 1),
                                        (str ''opType'', JStr (str ''DbInsert'')),
                                        (str ''argChild'', JInt 0),
                                        (str ''argOverwriteTable'', JBool True),
                                        (str ''relationKey'', JStr (str ''R''))]])]]),
          (str ''logicalRa'', JStr (str '''')),
          (str ''rawQuery'', JStr (str ''''))]
   \<and> JInt 0 \<noteq> JInt (1 - 2)"
  by (simp add: get_parallel_import_plan_def get_parallel_import_fragment_def increment_def
      or_dict_def or_str_def DEFAULT_SCAN_TYPE_def DEFAULT_INSERT_TYPE_def Let_def)

subsection \<open>C7: extra parameters are overlaid last\<close>

text \<open>
  Claim C7.  The extra parameters are overlaid last onto the computed properties.  In the
  scan operator of every fragment \<open>j\<close>, a key that the scan parameters supply has the
  value supplied, whatever the key: \<open>opId\<close> and \<open>opType\<close> are not excepted.  Every other
  key has what was computed: \<open>opId\<close> the allocated id \<open>2j\<close>, \<open>opType\<close> the scan type,
  \<open>schema\<close> and \<open>source\<close>, and no property otherwise.  The same holds for the insert
  operator, its parameters and its computed properties \<open>opId\<close>, \<open>opType\<close>,
  \<open>argChild\<close>, \<open>argOverwriteTable\<close> and \<open>relationKey\<close>.  With the scan parameters
  \<open>{'opType': 'HdfsScan'}\<close> every scan operator has the type \<open>HdfsScan\<close> and keeps its
  other properties.  The builder has no failure: it returns a document for all
  parameters.  The parameters are dictionaries, so their keys are pairwise different.
\<close>

theorem parameters_overlaid_last:
  assumes "distinct (map fst (or_dict sp []))" and "distinct (map fst (or_dict ip []))"
  shows "(\<exists>frags.
       getitem (fst (get_parallel_import_plan schema work relation text_arg sp ip st it s))
         (str ''fragments'') = Inr (JList frags)
     \<and> length frags = length work
     \<and> (\<forall>j<length work. \<exists>scan ins.
           getitem (frags ! j) (str ''operators'') = Inr (JList [scan, ins])
           \<and> (\<forall>(k, v)\<in>set (or_dict sp []). getitem scan k = Inr v)
           \<and> (\<forall>(k, v)\<in>set (or_dict ip []). getitem ins k = Inr v)
           \<and> (\<forall>key. getitem scan key =
                 (case map_of (or_dict sp []) key of
                    Some v \<Rightarrow> Inr v
                  | None \<Rightarrow>
                      getitem (JDict [(str ''opId'', JInt (2 * int j)),
                                      (str ''opType'', JStr (or_str st DEFAULT_SCAN_TYPE)),
                                      (str ''schema'', schema),
                                      (str ''source'', snd (work ! j))]) key))
           \<and> (\<forall>key. getitem ins key =
                 (case map_of (or_dict ip []) key of
                    Some v \<Rightarrow> Inr v
                  | None \<Rightarrow>
                      getitem (JDict [(str ''opId'', JInt (2 * int j + 1)),
                                      (str ''opType'', JStr (or_str it DEFAULT_INSERT_TYPE)),
                                      (str ''argChild'', JInt (2 * int j)),
                                      (str ''argOverwriteTable'', JBool True),
                                      (str ''relationKey'', relation)]) key))))
   \<and> (\<exists>frags.
       getitem (fst (get_parallel_import_plan schema work relation text_arg
                       (Some [(str ''opType'', JStr (str ''HdfsScan''))]) ip st it s))
         (str ''fragments'') = Inr (JList frags)
     \<and> length frags = length work
     \<and> (\<forall>j<length work. \<exists>scan ins.
           getitem (frags ! j) (str ''operators'') = Inr (JList [scan, ins])
           \<and> getitem scan (str ''opType'') = Inr (JStr (str ''HdfsScan''))
           \<and> getitem scan (str ''opId'') = Inr (JInt (2 * int j))
           \<and> getitem scan (str ''schema'') = Inr schema
           \<and> getitem scan (str ''source'') = Inr (snd (work ! j))))"
proof
  let ?frags = "fragments_from schema relation st it sp ip 0 work"
  have "\<exists>scan ins.
           getitem (?frags ! j) (str ''operators'') = Inr (JList [scan, ins])
           \<and> (\<forall>(k, v)\<in>set (or_dict sp []). getitem scan k = Inr v)
           \<and> (\<forall>(k, v)\<in>set (or_dict ip []). getitem ins k = Inr v)
           \<and> (\<forall>key. getitem scan key =
                 (case map_of (or_dict sp []) key of
                    Some v \<Rightarrow> Inr v
                  | None \<Rightarrow>
                      getitem (JDict [(str ''opId'', JInt (2 * int j)),
                                      (str ''opType'', JStr (or_str st DEFAULT_SCAN_TYPE)),
                                      (str ''schema'', schema),
                                      (str ''source'', snd (work ! j))]) key))
           \<and> (\<forall>key. getitem ins key =
                 (case map_of (or_dict ip []) key of
                    Some v \<Rightarrow> Inr v
                  | None \<Rightarrow>
                      getitem (JDict [(str ''opId'', JInt (2 * int j + 1)),
                                      (str ''opType'', JStr (or_str it DEFAULT_INSERT_TYPE)),
                                      (str ''argChild'', JInt (2 * int j)),
                                      (str ''argOverwriteTable'', JBool True),
                                      (str ''relationKey'', relation)]) key))"
    if j: "j < length work" for j
  proof -
    let ?scan = "JDict (scan_operator (2 * int j) schema st sp (snd (work ! j)))"
    let ?ins = "JDict (insert_operator (2 * int j) relation it ip)"
    have 1: "getitem (?frags ! j) (str ''operators'') = Inr (JList [?scan, ?ins])"
      using j by (simp add: fragments_from_nth getitem_fragment_at_operators)
    have 2: "\<forall>(k, v)\<in>set (or_dict sp []). getitem ?scan k = Inr v"
      using scan_operator_supplied [OF assms(1)] by blast
    have 3: "\<forall>(k, v)\<in>set (or_dict ip []). getitem ?ins k = Inr v"
      using insert_operator_supplied [OF assms(2)] by blast
    have 4: "\<forall>key. getitem ?scan key =
                 (case map_of (or_dict sp []) key of
                    Some v \<Rightarrow> Inr v
                  | None \<Rightarrow>
                      getitem (JDict [(str ''opId'', JInt (2 * int j)),
                                      (str ''opType'', JStr (or_str st DEFAULT_SCAN_TYPE)),
                                      (str ''schema'', schema),
                                      (str ''source'', snd (work ! j))]) key)"
      by (simp add: scan_operator_def getitem_JDict map_of_dict_update [OF assms(1)]
          split: option.splits)
    have 5: "\<forall>key. getitem ?ins key =
                 (case map_of (or_dict ip []) key of
                    Some v \<Rightarrow> Inr v
                  | None \<Rightarrow>
                      getitem (JDict [(str ''opId'', JInt (2 * int j + 1)),
                                      (str ''opType'', JStr (or_str it DEFAULT_INSERT_TYPE)),
                                      (str ''argChild'', JInt (2 * int j)),
                                      (str ''argOverwriteTable'', JBool True),
                                      (str ''relationKey'', relation)]) key)"
      by (simp add: insert_operator_def getitem_JDict map_of_dict_update [OF assms(2)]
          split: option.splits)
    show ?thesis
      by (intro exI [of _ ?scan] exI [of _ ?ins] conjI) (fact 1 2 3 4 5)+
  qed
  then show "\<exists>frags.
       getitem (fst (get_parallel_import_plan schema work relation text_arg sp ip st it s))
         (str ''fragments'') = Inr (JList frags)
     \<and> length frags = length work
     \<and> (\<forall>j<length work. \<exists>scan ins.
           getitem (frags ! j) (str ''operators'') = Inr (JList [scan, ins])
           \<and> (\<forall>(k, v)\<in>set (or_dict sp []). getitem scan k = Inr v)
           \<and> (\<forall>(k, v)\<in>set (or_dict ip []). getitem ins k = Inr v)
           \<and> (\<forall>key. getitem scan key =
                 (case map_of (or_dict sp []) key of
                    Some v \<Rightarrow> Inr v
                  | None \<Rightarrow>
                      getitem (JDict [(str ''opId'', JInt (2 * int j)),
                                      (str ''opType'', JStr (or_str st DEFAULT_SCAN_TYPE)),
                                      (str ''schema'', schema),
                                      (str ''source'', snd (work ! j))]) key))
           \<and> (\<forall>key. getitem ins key =
                 (case map_of (or_dict ip []) key of
                    Some v \<Rightarrow> Inr v
                  | None \<Rightarrow>
                      getitem (JDict [(str ''opId'', JInt (2 * int j + 1)),
                                      (str ''opType'', JStr (or_str it DEFAULT_INSERT_TYPE)),
                                      (str ''argChild'', JInt (2 * int j)),
                                      (str ''argOverwriteTable'', JBool True),
                                      (str ''relationKey'', relation)]) key)))"
    using plan_fragments [of schema work relation text_arg sp ip st it s]
    by (intro exI [of _ ?frags]) simp
next
  let ?sp = "Some [(str ''opType'', JStr (str ''HdfsScan''))]"
  let ?frags = "fragments_from schema relation st it ?sp ip 0 work"
  have d: "distinct (map fst (or_dict ?sp []))"
    by (simp add: or_dict_def)
  have "\<exists>scan ins.
           getitem (?frags ! j) (str ''operators'') = Inr (JList [scan, ins])
           \<and> getitem scan (str ''opType'') = Inr (JStr (str ''HdfsScan''))
           \<and> getitem scan (str ''opId'') = Inr (JInt (2 * int j))
           \<and> getitem scan (str ''schema'') = Inr schema
           \<and> getitem scan (str ''source'') = Inr (snd (work ! j))" if j: "j < length work" for j
  proof -
    let ?scan = "JDict (scan_operator (2 * int j) schema st ?sp (snd (work ! j)))"
    let ?ins = "JDict (insert_operator (2 * int j) relation it ip)"
    have 1: "getitem (?frags ! j) (str ''operators'') = Inr (JList [?scan, ?ins])"
      using j by (simp add: fragments_from_nth getitem_fragment_at_operators)
    have 2: "getitem ?scan (str ''opType'') = Inr (JStr (str ''HdfsScan''))"
      "getitem ?scan (str ''opId'') = Inr (JInt (2 * int j))"
      "getitem ?scan (str ''schema'') = Inr schema"
      "getitem ?scan (str ''source'') = Inr (snd (work ! j))"
      by (simp_all add: scan_operator_def getitem_JDict or_dict_def)
    show ?thesis
      by (intro exI [of _ ?scan] exI [of _ ?ins] conjI) (fact 1 2)+
  qed
  then show "\<exists>frags.
       getitem (fst (get_parallel_import_plan schema work relation text_arg ?sp ip st it s))
         (str ''fragments'') = Inr (JList frags)
     \<and> length frags = length work
     \<and> (\<forall>j<length work. \<exists>scan ins.
           getitem (frags ! j) (str ''operators'') = Inr (JList [scan, ins])
           \<and> getitem scan (str ''opType'') = Inr (JStr (str ''HdfsScan''))
           \<and> getitem scan (str ''opId'') = Inr (JInt (2 * int j))
           \<and> getitem scan (str ''schema'') = Inr schema
           \<and> getitem scan (str ''source'') = Inr (snd (work ! j)))"
    using plan_fragments [of schema work relation text_arg ?sp ip st it s]
    by (intro exI [of _ ?frags]) simp
qed

theorem parameters_overlaid_last_witness:
  "distinct (map fst (or_dict (Some [(str ''opId'', JInt 7), (str ''opType'', JStr (str ''HdfsScan''))]) []))
   \<and> distinct (map fst (or_dict (Some [(str ''argChild'', JInt 5)]) []))
   \<and> (\<exists>frags.
     getitem (fst (get_parallel_import_plan (JStr (str ''S''))
                [(JInt 1, JStr (str ''a'')), (JInt 2, JStr (str ''b''))] (JStr (str ''R'')) (str '''')
                (Some [(str ''opId'', JInt 7), (str ''opType'', JStr (str ''HdfsScan''))])
                (Some [(str ''argChild'', JInt 5)]) None None [])) (str ''fragments'')
       = Inr (JList frags)
     \<and> length frags = 2
     \<and> (\<exists>scan ins.
           getitem (frags ! 1) (str ''operators'') = Inr (JList [scan, ins])
           \<and> getitem scan (str ''opId'') = Inr (JInt 7)
           \<and> getitem scan (str ''opType'') = Inr (JStr (str ''HdfsScan''))
           \<and> getitem scan (str ''schema'') = Inr (JStr (str ''S''))
           \<and> getitem scan (str ''source'') = Inr (JStr (str ''b''))
           \<and> getitem scan (str ''opName'') = Inl KeyError
           \<and> getitem ins (str ''opId'') = Inr (JInt 3)
           \<and> getitem ins (str ''opType'') = Inr (JStr (str ''DbInsert''))
           \<and> getitem ins (str ''argChild'') = Inr (JInt 5)
           \<and> getitem ins (str ''argOverwriteTable'') = Inr (JBool True)
           \<and> getitem ins (str ''relationKey'') = Inr (JStr (str ''R''))))"
proof -
  let ?sp = "Some [(str ''opId'', JInt 7), (str ''opType'', JStr (str ''HdfsScan''))]"
  let ?ip = "Some [(str ''argChild'', JInt 5)]"
  let ?work = "[(JInt 1, JStr (str ''a'')), (JInt 2, JStr (str ''b''))]"
  have h1: "distinct (map fst (or_dict ?sp []))"
    by (simp add: or_dict_def)
  have h2: "distinct (map fst (or_dict ?ip []))"
    by (simp add: or_dict_def)
  from parameters_overlaid_last [OF h1 h2, of "JStr (str ''S'')" ?work "JStr (str ''R'')" "str ''''"
      None None "[]"]
  obtain frags where f:
    "getitem (fst (get_parallel_import_plan (JStr (str ''S'')) ?work (JStr (str ''R'')) (str '''')
                ?sp ?ip None None [])) (str ''fragments'') = Inr (JList frags)"
    "length frags = length ?work"
    "\<forall>j<length ?work. \<exists>scan ins.
           getitem (frags ! j) (str ''operators'') = Inr (JList [scan, ins])
           \<and> (\<forall>key. getitem scan key =
                 (case map_of (or_dict ?sp []) key of
                    Some v \<Rightarrow> Inr v
                  | None \<Rightarrow>
                      getitem (JDict [(str ''opId'', JInt (2 * int j)),
                                      (str ''opType'', JStr (or_str None DEFAULT_SCAN_TYPE)),
                                      (str ''schema'', JStr (str ''S'')),
                                      (str ''source'', snd (?work ! j))]) key))
           \<and> (\<forall>key. getitem ins key =
                 (case map_of (or_dict ?ip []) key of
                    Some v \<Rightarrow> Inr v
                  | None \<Rightarrow>
                      getitem (JDict [(str ''opId'', JInt (2 * int j + 1)),
                                      (str ''opType'', JStr (or_str None DEFAULT_INSERT_TYPE)),
                                      (str ''argChild'', JInt (2 * int j)),
                                      (str ''argOverwriteTable'', JBool True),
                                      (str ''relationKey'', JStr (str ''R''))]) key))"
    by (elim conjE exE) blast
  from f(3) obtain scan ins where g:
    "getitem (frags ! 1) (str ''operators'') = Inr (JList [scan, ins])"
    "\<forall>key. getitem scan key =
                 (case map_of (or_dict ?sp []) key of
                    Some v \<Rightarrow> Inr v
                  | None \<Rightarrow>
                      getitem (JDict [(str ''opId'', JInt (2 * int 1)),
                                      (str ''opType'', JStr (or_str None DEFAULT_SCAN_TYPE)),
                                      (str ''schema'', JStr (str ''S'')),
                                      (str ''source'', snd (?work ! 1))]) key)"
    "\<forall>key. getitem ins key =
                 (case map_of (or_dict ?ip []) key of
                    Some v \<Rightarrow> Inr v
                  | None \<Rightarrow>
                      getitem (JDict [(str ''opId'', JInt (2 * int 1 + 1)),
                                      (str ''opType'', JStr (or_str None DEFAULT_INSERT_TYPE)),
                                      (str ''argChild'', JInt (2 * int 1)),
                                      (str ''argOverwriteTable'', JBool True),
                                      (str ''relationKey'', JStr (str ''R''))]) key)"
    by (auto dest: spec [of _ 1])
  have 1: "getitem scan (str ''opId'') = Inr (JInt 7)"
    "getitem scan (str ''opType'') = Inr (JStr (str ''HdfsScan''))"
    "getitem scan (str ''schema'') = Inr (JStr (str ''S''))"
    "getitem scan (str ''source'') = Inr (JStr (str ''b''))"
    "getitem scan (str ''opName'') = Inl KeyError"
    by (simp_all add: g(2) or_dict_def getitem_JDict)
  have 2: "getitem ins (str ''opId'') = Inr (JInt 3)"
    "getitem ins (str ''opType'') = Inr (JStr (str ''DbInsert''))"
    "getitem ins (str ''argChild'') = Inr (JInt 5)"
    "getitem ins (str ''argOverwriteTable'') = Inr (JBool True)"
    "getitem ins (str ''relationKey'') = Inr (JStr (str ''R''))"
    by (simp_all add: g(3) or_dict_def or_str_def DEFAULT_INSERT_TYPE_def getitem_JDict)
  from f(2) have 3: "length frags = 2"
    by simp
  show ?thesis
    by (intro conjI exI [of _ frags] exI [of _ scan] exI [of _ ins]) (fact h1 h2 f(1) 3 g(1) 1 2)+
qed

subsection \<open>C8: workers and operators of a fragment\<close>

text \<open>
  Claim C8.  Every work entry \<open>(workerId, dataSource)\<close> gives one fragment, in the order
  of the work list; the \<open>overrideWorkers\<close> of the fragment is the one-element list
  \<open>[workerId]\<close>, and its \<open>operators\<close> is the list of the scan operator followed by the
  insert operator, and of nothing else.
\<close>

theorem fragment_workers_and_operators:
  "\<exists>frags.
     getitem (fst (get_parallel_import_plan schema work relation text_arg sp ip st it s)) (str ''fragments'')
       = Inr (JList frags)
     \<and> map MyriaFragment_workers frags = map (\<lambda>a. Inr (JList [fst a])) work
     \<and> map (\<lambda>f. getitem f (str ''operators'')) frags =
         map (\<lambda>k. Inr (JList [JDict (scan_operator (2 * int k) schema st sp (snd (work ! k))),
                                JDict (insert_operator (2 * int k) relation it ip)]))
             [0..<length work]"
proof -
  let ?frags = "fragments_from schema relation st it sp ip 0 work"
  have 1: "getitem (fst (get_parallel_import_plan schema work relation text_arg sp ip st it s)) (str ''fragments'')
       = Inr (JList ?frags)"
    by (simp add: plan_eq getitem_def)
  have 2: "map MyriaFragment_workers ?frags = map (\<lambda>a. Inr (JList [fst a])) work"
    using map_nth_upt [of "\<lambda>a. Inr (JList [fst a])" work]
    by (simp add: fragments_from_map MyriaFragment_workers_def getitem_fragment_at_workers o_def)
  have 3: "map (\<lambda>f. getitem f (str ''operators'')) ?frags =
         map (\<lambda>k. Inr (JList [JDict (scan_operator (2 * int k) schema st sp (snd (work ! k))),
                                JDict (insert_operator (2 * int k) relation it ip)]))
             [0..<length work]"
    by (simp add: fragments_from_map getitem_fragment_at_operators)
  from 1 2 3 show ?thesis by blast
qed

subsection \<open>C9: lookup and membership on an operator view\<close>

text \<open>
  Claim C9.  Looking up a property that an operator does not have raises \<open>KeyError\<close>.
  The membership test that is to guard the lookup does not return: \<open>__contains__\<close>
  calls a method \<open>contains\<close> that a dictionary does not have, and raises
  \<open>AttributeError\<close>, for a key that is absent and for a key that is present.
\<close>

theorem contains_raises:
  "MyriaOperator_getitem (JDict [(str ''opId'', JInt 0)]) (str ''opName'') = Inl KeyError
   \<and> MyriaOperator_getitem (JDict [(str ''opId'', JInt 0)]) (str ''opId'') = Inr (JInt 0)
   \<and> MyriaOperator_contains (JDict [(str ''opId'', JInt 0)]) (str ''opName'') = Inl AttributeError
   \<and> MyriaOperator_contains (JDict [(str ''opId'', JInt 0)]) (str ''opId'') = Inl AttributeError"
  by (simp add: MyriaOperator_getitem_def MyriaOperator_contains_def getitem_def)

subsection \<open>C10: the counter is not shared between calls\<close>


end
